theory Spec2Isabelle
  imports Complex_Main "HOL-Library.Multiset"
begin

section \<open>Python values, failures and the outside world\<close>

text \<open>
  The module \<^verbatim>\<open>server/cover_letter_generator.py\<close> is one class,
  \<^verbatim>\<open>GroqCoverLetterGenerator\<close>, whose five methods wire three outside libraries together:
  a text splitter, a vector index (FAISS behind an embedding model) and a hosted
  text-generation client. The methods are embedded here as functions that pass the
  outside world (the filesystem and the printed output) explicitly and return either a
  raised exception (\<open>Inl\<close>) or a value (\<open>Inr\<close>).

  An \<open>exn\<close> is an instance of Python's class \<^verbatim>\<open>Exception\<close>, the class the two
  \<^verbatim>\<open>except Exception\<close> clauses of the module name; the string is what \<^verbatim>\<open>str(e)\<close>
  returns. A floating-point number is the real number it stands for
  (infinities and not-a-number apart); what the floating-point operations of the
  libraries make of such numbers is not fixed here.
\<close>

datatype exn = Exception (str: string)

type_synonym 'a result = "exn + 'a"

datatype document = Document (page_content: string)

record text_splitter =
  chunk_size :: nat
  chunk_overlap :: nat
  separators :: "string list"

record message =
  role :: string
  content :: string

record request =
  messages :: "message list"
  model :: string
  temperature :: real
  max_tokens :: nat
  top_p :: real
  stream :: bool

text \<open>A completion is read only through \<^verbatim>\<open>completion.choices[i].message.content\<close>,
  which the client types as an optional string.\<close>

datatype completion = Completion (choices: "string option list")

record 'fs world =
  files :: 'fs
  stdout :: "string list"

text \<open>
  The libraries are parameters of the model: every call the module makes into them is a
  field of \<open>collaborators\<close>. A call that can raise returns a \<open>result\<close>. The type
  \<open>'store\<close> is the library's index object and \<open>'fs\<close> the state of the filesystem.
  The last three fields are the floating-point operations of line 199 and line 200,
  \<^verbatim>\<open>x - y\<close>, \<^verbatim>\<open>x * y\<close> and \<^verbatim>\<open>round(x, ndigits)\<close>, on the numbers the index reports:
  their results depend on the number format of the libraries.
\<close>

record ('store, 'fs) collaborators =
  split_text :: "text_splitter \<Rightarrow> string \<Rightarrow> string list"
  path_exists :: "'fs \<Rightarrow> string \<Rightarrow> bool"
  load_local :: "'fs \<Rightarrow> string \<Rightarrow> 'store result"
  from_documents :: "document list \<Rightarrow> 'store result"
  makedirs :: "'fs \<Rightarrow> string \<Rightarrow> 'fs result"
  save_local :: "'fs \<Rightarrow> 'store \<Rightarrow> string \<Rightarrow> 'fs result"
  similarity_search :: "'store \<Rightarrow> string \<Rightarrow> nat \<Rightarrow> document list result"
  similarity_search_with_score :: "'store \<Rightarrow> string \<Rightarrow> nat \<Rightarrow> (document \<times> real) list result"
  chat_completions_create :: "request \<Rightarrow> completion result"
  float_sub :: "real \<Rightarrow> real \<Rightarrow> real"
  float_mul :: "real \<Rightarrow> real \<Rightarrow> real"
  float_round :: "real \<Rightarrow> nat \<Rightarrow> real"

subsection \<open>Built-ins of the language\<close>

definition print :: "string \<Rightarrow> 'fs world \<Rightarrow> 'fs world" where
  "print line w = w\<lparr>stdout := stdout w @ [line]\<rparr>"

text \<open>\<^verbatim>\<open>os.path.join\<close> on two components (POSIX): an absolute second component
  replaces the first.\<close>

definition os_path_join :: "string \<Rightarrow> string \<Rightarrow> string" where
  "os_path_join a b =
     (if b \<noteq> [] \<and> hd b = CHR ''/'' then b
      else if a = [] \<or> last a = CHR ''/'' then a @ b
      else a @ ''/'' @ b)"

text \<open>\<^verbatim>\<open>sep.join(parts)\<close>.\<close>

fun join :: "string \<Rightarrow> string list \<Rightarrow> string" where
  "join sep [] = []"
| "join sep [x] = x"
| "join sep (x # y # ys) = x @ sep @ join sep (y # ys)"

text \<open>\<^verbatim>\<open>d[key]\<close> on a dictionary raises \<^verbatim>\<open>KeyError\<close> on a missing key.\<close>

definition getitem :: "(string \<rightharpoonup> 'v) \<Rightarrow> string \<Rightarrow> 'v result" where
  "getitem d key =
     (case d key of
        None \<Rightarrow> Inl (Exception ([CHR 0x27] @ key @ [CHR 0x27]))
      | Some v \<Rightarrow> Inr v)"

text \<open>\<^verbatim>\<open>str.isspace\<close> on the characters of one byte, and \<^verbatim>\<open>str.strip()\<close>.\<close>

definition isspace :: "char \<Rightarrow> bool" where
  "isspace ch =
     (let n = (of_char ch :: nat)
      in (9 \<le> n \<and> n \<le> 13) \<or> (28 \<le> n \<and> n \<le> 32) \<or> n = 133 \<or> n = 160)"

definition strip :: "string \<Rightarrow> string" where
  "strip s = rev (dropWhile isspace (rev (dropWhile isspace s)))"

section \<open>The class \<^verbatim>\<open>GroqCoverLetterGenerator\<close>\<close>

text \<open>The fields of \<^verbatim>\<open>self\<close> that hold data; \<^verbatim>\<open>self.client\<close> and
  \<^verbatim>\<open>self.embeddings\<close> are handles to the collaborators.\<close>

record generator =
  vector_store_path :: string
  text_splitter :: text_splitter

text \<open>\<^verbatim>\<open>__init__(self, groq_api_key, vector_store_path="vector_indices")\<close>: an omitted
  argument is \<open>None\<close>.\<close>

definition init :: "string \<Rightarrow> string option \<Rightarrow> generator" where
  "init groq_api_key vector_store_path_arg =
     \<lparr>vector_store_path =
        (case vector_store_path_arg of None \<Rightarrow> ''vector_indices'' | Some p \<Rightarrow> p),
      text_splitter =
        \<lparr>chunk_size = 500, chunk_overlap = 50,
         separators = [''\<newline>\<newline>'', ''\<newline>'', '' '', '''']\<rparr>\<rparr>"

subsection \<open>\<^verbatim>\<open>load_or_create_vector_store\<close>\<close>

text \<open>Lines 48 to 57, the path taken when nothing was loaded: split, wrap each chunk in
  a document, build the index, create the storage directory, save, return.\<close>

definition create_vector_store ::
  "('store, 'fs) collaborators \<Rightarrow> generator \<Rightarrow> string \<Rightarrow> string \<Rightarrow> 'fs world
     \<Rightarrow> 'store result \<times> 'fs world" where
  "create_vector_store c self text store_path w =
     (let chunks = split_text c (text_splitter self) text;
          documents = map Document chunks
      in case from_documents c documents of
           Inl e \<Rightarrow> (Inl e, w)
         | Inr vector_store \<Rightarrow>
             (case makedirs c (files w) (vector_store_path self) of
                Inl e \<Rightarrow> (Inl e, w)
              | Inr fs1 \<Rightarrow>
                  (case save_local c fs1 vector_store store_path of
                     Inl e \<Rightarrow> (Inl e, w\<lparr>files := fs1\<rparr>)
                   | Inr fs2 \<Rightarrow> (Inr vector_store, w\<lparr>files := fs2\<rparr>))))"

definition load_or_create_vector_store ::
  "('store, 'fs) collaborators \<Rightarrow> generator \<Rightarrow> string \<Rightarrow> string \<Rightarrow> 'fs world
     \<Rightarrow> 'store result \<times> 'fs world" where
  "load_or_create_vector_store c self text store_name w =
     (let store_path = os_path_join (vector_store_path self) store_name
      in if path_exists c (files w) store_path then
           (case load_local c (files w) store_path of
              Inr vector_store \<Rightarrow> (Inr vector_store, w)
            | Inl e \<Rightarrow>
                create_vector_store c self text store_path
                  (print (''Error loading vector store: '' @ str e) w))
         else create_vector_store c self text store_path w)"

subsection \<open>\<^verbatim>\<open>get_relevant_context\<close>\<close>

text \<open>The parameter \<^verbatim>\<open>k: int = 3\<close> is optional.\<close>

definition get_relevant_context ::
  "('store, 'fs) collaborators \<Rightarrow> 'store \<Rightarrow> string \<Rightarrow> nat option \<Rightarrow> 'fs world
     \<Rightarrow> string result \<times> 'fs world" where
  "get_relevant_context c vector_store query k_arg w =
     (let k = (case k_arg of None \<Rightarrow> 3 | Some k \<Rightarrow> k)
      in case similarity_search c vector_store query k of
           Inl e \<Rightarrow> (Inl e, w)
         | Inr documents \<Rightarrow> (Inr (join ''\<newline>'' (map page_content documents)), w))"

subsection \<open>\<^verbatim>\<open>extract_key_information\<close>\<close>

definition queries :: "string \<rightharpoonup> string" where
  "queries =
     [''technical_skills'' \<mapsto>
        ''What are the candidate's technical skills, programming languages, and tools?'',
      ''soft_skills'' \<mapsto>
        ''What are the candidate's soft skills, leadership abilities, and interpersonal skills?'',
      ''experience'' \<mapsto>
        ''What are the candidate's most relevant work experiences, projects, and achievements?'',
      ''education'' \<mapsto>
        ''What is the candidate's educational background, degrees, and certifications?'',
      ''job_requirements'' \<mapsto>
        ''What are the key technical requirements and qualifications for this position?'',
      ''job_responsibilities'' \<mapsto>
        ''What are the main responsibilities and duties of this role?'']"

text \<open>One \<^verbatim>\<open>for key in [...]: info[key] = self.get_relevant_context(store, queries[key])\<close>
  loop.\<close>

fun extract_loop ::
  "('store, 'fs) collaborators \<Rightarrow> 'store \<Rightarrow> string list \<Rightarrow> (string \<rightharpoonup> string) \<Rightarrow> 'fs world
     \<Rightarrow> (string \<rightharpoonup> string) result \<times> 'fs world" where
  "extract_loop c store [] info w = (Inr info, w)"
| "extract_loop c store (key # keys) info w =
     (case getitem queries key of
        Inl e \<Rightarrow> (Inl e, w)
      | Inr query \<Rightarrow>
          (case get_relevant_context c store query None w of
             (Inl e, w1) \<Rightarrow> (Inl e, w1)
           | (Inr context, w1) \<Rightarrow> extract_loop c store keys (info(key \<mapsto> context)) w1))"

definition resume_keys :: "string list" where
  "resume_keys = [''technical_skills'', ''soft_skills'', ''experience'', ''education'']"

definition jd_keys :: "string list" where
  "jd_keys = [''job_requirements'', ''job_responsibilities'']"

definition extract_key_information ::
  "('store, 'fs) collaborators \<Rightarrow> 'store \<Rightarrow> 'store \<Rightarrow> 'fs world
     \<Rightarrow> (string \<rightharpoonup> string) result \<times> 'fs world" where
  "extract_key_information c resume_store jd_store w =
     (case extract_loop c resume_store resume_keys Map.empty w of
        (Inl e, w1) \<Rightarrow> (Inl e, w1)
      | (Inr info, w1) \<Rightarrow> extract_loop c jd_store jd_keys info w1)"

subsection \<open>\<^verbatim>\<open>generate_cover_letter\<close>\<close>

definition system_content :: string where
  \<open>system_content = concat
     [''You are a professional cover letter writer. \<newline>'',
      ''                    Create compelling, personalized cover letters that precisely match \<newline>'',
      ''                    candidate qualifications with job requirements.\<newline>'',
      ''                    Directly start writing letter from subject, no need to provide any additional labels like "Here is a professional cover letter based on the matched information:" or "Here is a professional cover letter:" and other.\<newline>'',
      ''                    '']\<close>

definition user_requirements :: string where
  "user_requirements = concat
     [''\<newline>'',
      ''                    \<newline>'',
      ''                    Requirements:\<newline>'',
      ''                    1. Start with a compelling introduction showing understanding of the role\<newline>'',
      ''                    2. Match specific skills and experiences to job requirements\<newline>'',
      ''                    3. Use concrete examples from the experience section\<newline>'',
      ''                    4. Maintain professional tone while showing enthusiasm\<newline>'',
      ''                    5. Format as proper email with subject line\<newline>'',
      ''                    6. Include strong call to action\<newline>'',
      ''                    7. Keep length between 250-300 words\<newline>'',
      ''                    8. End with professional closing\<newline>'',
      ''                    9. Use proper grammar and punctuation\<newline>'',
      ''                    10. Avoid cliches and generic statements\<newline>'',
      ''                    11. Avoid repeating information from resume\<newline>'',
      ''                    12. Avoid negative language or criticism\<newline>'',
      ''                    13. Make sure the email is humanised the email generated should be humanised\<newline>'',
      ''                    '']"

text \<open>One labelled block of the user message: the text between two interpolations.\<close>

definition heading :: "string \<Rightarrow> string" where
  "heading label = concat
     [''\<newline>'',
      ''                    \<newline>'',
      ''                    '', label, ''\<newline>'',
      ''                    '']"

text \<open>The interpolations \<^verbatim>\<open>{info['...']}\<close> of an f-string, each after its literal
  text: they are evaluated left to right, and each raises \<^verbatim>\<open>KeyError\<close> on a missing
  label.\<close>

fun interpolate :: "(string \<rightharpoonup> string) \<Rightarrow> (string \<times> string) list \<Rightarrow> string result" where
  "interpolate info [] = Inr []"
| "interpolate info ((literal, key) # rest) =
     (case getitem info key of
        Inl e \<Rightarrow> Inl e
      | Inr v \<Rightarrow>
          (case interpolate info rest of
             Inl e \<Rightarrow> Inl e
           | Inr s \<Rightarrow> Inr (literal @ v @ s)))"

definition user_opening :: string where
  "user_opening = concat
     [''\<newline>'',
      ''                    Create a professional cover letter based on the following matched information:\<newline>'',
      ''                    \<newline>'',
      ''                    Technical Skills:\<newline>'',
      ''                    '']"

definition user_content :: "(string \<rightharpoonup> string) \<Rightarrow> string \<Rightarrow> string result" where
  "user_content info hr_email =
     (case interpolate info
             [(user_opening, ''technical_skills''),
              (heading ''Soft Skills:'', ''soft_skills''),
              (heading ''Relevant Experience:'', ''experience''),
              (heading ''Education:'', ''education''),
              (heading ''Job Requirements:'', ''job_requirements''),
              (heading ''Job Responsibilities:'', ''job_responsibilities'')] of
        Inl e \<Rightarrow> Inl e
      | Inr s \<Rightarrow>
          Inr (s @ concat
                 [''\<newline>'',
                  ''                    \<newline>'',
                  ''                    HR Email: '', hr_email,
                  user_requirements]))"

text \<open>The two messages and the keyword arguments of
  \<^verbatim>\<open>self.client.chat.completions.create\<close>, lines 109 to 169.\<close>

definition completion_request :: "string \<Rightarrow> request" where
  "completion_request user =
     \<lparr>messages =
        [\<lparr>role = ''system'', content = system_content\<rparr>,
         \<lparr>role = ''user'', content = user\<rparr>],
      model = ''llama3-70b-8192'',
      temperature = 7 / 10,
      max_tokens = 1000,
      top_p = 1,
      stream = False\<rparr>"

text \<open>The body of the \<^verbatim>\<open>try\<close> block, lines 105 to 171. \<^verbatim>\<open>choices[0]\<close> on an empty
  list raises \<^verbatim>\<open>IndexError\<close>.\<close>

definition generate_cover_letter_try ::
  "('store, 'fs) collaborators \<Rightarrow> 'store \<Rightarrow> 'store \<Rightarrow> string \<Rightarrow> 'fs world
     \<Rightarrow> string option result \<times> 'fs world" where
  "generate_cover_letter_try c resume_store jd_store hr_email w =
     (case extract_key_information c resume_store jd_store w of
        (Inl e, w1) \<Rightarrow> (Inl e, w1)
      | (Inr info, w1) \<Rightarrow>
          (case user_content info hr_email of
             Inl e \<Rightarrow> (Inl e, w1)
           | Inr user \<Rightarrow>
               (case chat_completions_create c (completion_request user) of
                  Inl e \<Rightarrow> (Inl e, w1)
                | Inr completion \<Rightarrow>
                    (case choices completion of
                       [] \<Rightarrow> (Inl (Exception ''list index out of range''), w1)
                     | first # _ \<Rightarrow> (Inr first, w1)))))"

text \<open>The \<^verbatim>\<open>try\<close> with its handler, lines 104 to 175.\<close>

definition generate_cover_letter ::
  "('store, 'fs) collaborators \<Rightarrow> 'store \<Rightarrow> 'store \<Rightarrow> string \<Rightarrow> 'fs world
     \<Rightarrow> string option result \<times> 'fs world" where
  "generate_cover_letter c resume_store jd_store hr_email w =
     (case generate_cover_letter_try c resume_store jd_store hr_email w of
        (Inr letter, w1) \<Rightarrow> (Inr letter, w1)
      | (Inl e, w1) \<Rightarrow> (Inr None, print (''Error generating cover letter: '' @ str e) w1))"

subsection \<open>\<^verbatim>\<open>calculate_match_scores\<close>\<close>

text \<open>The loop \<^verbatim>\<open>for req in req_chunks\<close>, lines 194 to 200.\<close>

fun score_loop ::
  "('store, 'fs) collaborators \<Rightarrow> 'store \<Rightarrow> string list \<Rightarrow> (string \<rightharpoonup> real) \<Rightarrow> 'fs world
     \<Rightarrow> (string \<rightharpoonup> real) result \<times> 'fs world" where
  "score_loop c resume_store [] scores w = (Inr scores, w)"
| "score_loop c resume_store (req # reqs) scores w =
     (case similarity_search_with_score c resume_store req 1 of
        Inl e \<Rightarrow> (Inl e, w)
      | Inr matches \<Rightarrow>
          (case matches of
             [] \<Rightarrow> score_loop c resume_store reqs scores w
           | first # _ \<Rightarrow>
               (let score = float_mul c (float_sub c 1 (snd first)) 100
                in score_loop c resume_store reqs
                     (scores(strip req \<mapsto> float_round c score 2)) w)))"

definition calculate_match_scores ::
  "('store, 'fs) collaborators \<Rightarrow> generator \<Rightarrow> 'store \<Rightarrow> 'store \<Rightarrow> 'fs world
     \<Rightarrow> (string \<rightharpoonup> real) result \<times> 'fs world" where
  "calculate_match_scores c self resume_store jd_store w =
     (case get_relevant_context c jd_store
             ''What are the specific requirements and qualifications?'' (Some 5) w of
        (Inl e, w1) \<Rightarrow> (Inl e, w1)
      | (Inr requirements, w1) \<Rightarrow>
          (let req_chunks = split_text c (text_splitter self) requirements
           in score_loop c resume_store req_chunks Map.empty w1))"

section \<open>The collaborators as the specification describes them\<close>

subsection \<open>Chunker\<close>

text \<open>
  Modelled from the spec: the Chunker of section 4.1. The module only configures it
  (\<^verbatim>\<open>RecursiveCharacterTextSplitter(chunk_size=500, chunk_overlap=50,
  separators=["\n\n", "\n", " ", ""])\<close>); the splitter itself is a library class that is
  not part of the repository. The specification says: \<^emph>\<open>splits preferentially at paragraph
  breaks, falling back to line breaks, then spaces, then raw character boundaries, so
  that chunks stay under \<open>max_size\<close> while preserving semantic units where possible;
  adjacent chunks share \<open>overlap\<close> characters of context; deterministic; no error
  conditions; empty input yields an empty sequence\<close>.

  The text is cut at the first separator of the list that occurs in it (the empty
  separator cuts between any two characters). Pieces shorter than the maximum are
  merged greedily into chunks; when a chunk is full, its last pieces, up to the overlap,
  start the next one. A piece that is too long is cut again with the remaining
  separators.
\<close>

text \<open>Modelled from the spec: whether a separator occurs in a text.\<close>

fun occurs :: "string \<Rightarrow> string \<Rightarrow> bool" where
  "occurs s [] = (s = [])"
| "occurs s (x # xs) = (take (length s) (x # xs) = s \<or> occurs s xs)"

text \<open>Modelled from the spec: cutting at a separator that is not empty. The separator
  stays at the start of the piece that follows it.\<close>

function pieces :: "string \<Rightarrow> string \<Rightarrow> string \<Rightarrow> string list" where
  "pieces sep cur [] = [cur]"
| "pieces sep cur (x # xs) =
     (if sep \<noteq> [] \<and> take (length sep) (x # xs) = sep
      then cur # pieces sep sep (drop (length sep) (x # xs))
      else pieces sep (cur @ [x]) xs)"
  by pat_completeness auto
termination
  by (relation "measure (\<lambda>(sep, cur, text). length text)") auto

text \<open>Modelled from the spec: the pieces of a text at one separator, empty pieces left
  out; the empty separator cuts between any two characters (raw character
  boundaries).\<close>

definition split_on :: "string \<Rightarrow> string \<Rightarrow> string list" where
  "split_on sep text =
     (if sep = [] then map (\<lambda>ch. [ch]) text
      else filter (\<lambda>p. p \<noteq> []) (pieces sep [] text))"

text \<open>Modelled from the spec: a finished chunk is the pieces joined, surrounding whitespace removed, nothing when
  only whitespace is left.\<close>

definition emit :: "string list \<Rightarrow> string list" where
  "emit cur = (let chunk = strip (concat cur) in if chunk = [] then [] else [chunk])"

text \<open>Modelled from the spec: the overlap. What the next chunk keeps of a full one:
  pieces are dropped from the front while
  more than the overlap is left, or while the coming piece of length \<open>n\<close> does not fit.\<close>

fun keep_overlap :: "nat \<Rightarrow> nat \<Rightarrow> nat \<Rightarrow> string list \<Rightarrow> string list" where
  "keep_overlap max_size overlap n [] = []"
| "keep_overlap max_size overlap n (p # ps) =
     (let total = length (concat (p # ps))
      in if overlap < total \<or> (max_size < total + n \<and> 0 < total)
         then keep_overlap max_size overlap n ps
         else p # ps)"

text \<open>Modelled from the spec: pieces are merged greedily into chunks of at most
  \<open>max_size\<close> characters; a chunk that the next piece would overfill is finished, and
  the next chunk starts with its overlap.\<close>

fun merge_splits :: "nat \<Rightarrow> nat \<Rightarrow> string list \<Rightarrow> string list \<Rightarrow> string list" where
  "merge_splits max_size overlap cur [] = emit cur"
| "merge_splits max_size overlap cur (d # ds) =
     (if max_size < length (concat cur) + length d \<and> cur \<noteq> []
      then emit cur @
           merge_splits max_size overlap (keep_overlap max_size overlap (length d) cur @ [d]) ds
      else merge_splits max_size overlap (cur @ [d]) ds)"

text \<open>Modelled from the spec: one pass over the pieces. Short pieces wait in \<open>good\<close> until a long piece or the
  end flushes them through \<open>merge_splits\<close>; a long piece goes to \<open>deeper\<close>.\<close>

fun collect ::
  "nat \<Rightarrow> nat \<Rightarrow> (string \<Rightarrow> string list) \<Rightarrow> string list \<Rightarrow> string list \<Rightarrow> string list" where
  "collect max_size overlap deeper good [] =
     (if good = [] then [] else merge_splits max_size overlap [] good)"
| "collect max_size overlap deeper good (s # rest) =
     (if length s < max_size then collect max_size overlap deeper (good @ [s]) rest
      else (if good = [] then [] else merge_splits max_size overlap [] good) @
           deeper s @ collect max_size overlap deeper [] rest)"

text \<open>Modelled from the spec: the order of preference of the separators. The first
  separator that occurs in the text cuts it, and the pieces that are too long are cut
  with the separators after it; the last separator cuts whatever is left.\<close>

fun split_with :: "nat \<Rightarrow> nat \<Rightarrow> string list \<Rightarrow> string \<Rightarrow> string list" where
  "split_with max_size overlap [] text = (if text = [] then [] else [text])"
| "split_with max_size overlap (sep # seps) text =
     (if sep = [] \<or> seps = [] then
        collect max_size overlap (\<lambda>piece. [piece]) [] (split_on sep text)
      else if occurs sep text then
        collect max_size overlap (split_with max_size overlap seps) [] (split_on sep text)
      else split_with max_size overlap seps text)"

text \<open>Modelled from the spec: \<open>split(text, max_size, overlap)\<close>, with the
  configuration of the splitter as the module builds it.\<close>

definition chunker :: "text_splitter \<Rightarrow> string \<Rightarrow> string list" where
  "chunker splitter text =
     split_with (chunk_size splitter) (chunk_overlap splitter) (separators splitter) text"

subsection \<open>Arithmetic\<close>

text \<open>
  Modelled from the spec: the conversion of section 4.6, \<^emph>\<open>\<open>(1 - distance) \<times> 100\<close>,
  rounded to two decimal places\<close>, on exact numbers. The program computes it in the
  floating-point numbers of its libraries, which are not part of the repository.
  \<open>round_half_even\<close> is the integer nearest to a number, the even one of two that are
  equally near (the rule of \<^verbatim>\<open>round\<close> in Python).
\<close>

definition round_half_even :: "real \<Rightarrow> int" where
  "round_half_even y =
     (let f = \<lfloor>y\<rfloor>; d = y - of_int f
      in if d < 1 / 2 then f
         else if 1 / 2 < d then f + 1
         else if even f then f else f + 1)"

text \<open>Modelled from the spec: a number rounded to \<open>ndigits\<close> decimal places.\<close>

definition py_round :: "real \<Rightarrow> nat \<Rightarrow> real" where
  "py_round x ndigits = of_int (round_half_even (x * 10 ^ ndigits)) / 10 ^ ndigits"

subsection \<open>Vector index, embedding model and storage\<close>

text \<open>
  Modelled from the spec: the embedding and vector index collaborators of section 6
  (\<open>build\<close>, \<open>search\<close>, \<open>save\<close>, \<open>load\<close>) and the filesystem boundary; the libraries
  behind them (FAISS, the embedding model, \<^verbatim>\<open>os\<close>) are not part of the repository.
  An index
  holds its chunks; \<open>distance query chunk\<close> is the metric of the index between the
  embeddings of the two texts. \<open>search\<close> returns the \<open>k\<close> nearest chunks as ranked
  (chunk, distance) pairs, the nearest first. A stored index loads back; anything else
  at the path fails to deserialize.
\<close>

type_synonym index = "document list"

text \<open>Modelled from the spec: \<open>search(index, query_vector, k)\<close>, the ranked
  (chunk, distance) pairs of the \<open>k\<close> nearest chunks.\<close>

definition search ::
  "(string \<Rightarrow> string \<Rightarrow> real) \<Rightarrow> index \<Rightarrow> string \<Rightarrow> nat \<Rightarrow> (document \<times> real) list" where
  "search distance idx query k =
     take k (sort_key snd (map (\<lambda>d. (d, distance query (page_content d))) idx))"

text \<open>Modelled from the spec: what the storage holds at a path: a directory, a
  persisted index, or data that does not deserialize.\<close>

datatype node = Folder | Stored index | Corrupt

type_synonym disk = "string \<rightharpoonup> node"

text \<open>Modelled from the spec: the collaborators together. \<open>load\<close> fails with a
  deserialization error on anything but a persisted index; \<open>build\<close> keeps the chunks;
  creating the storage directory leaves an existing one alone; \<open>save\<close> persists the
  index at the path; the two searches rank by \<open>distance\<close>. The text-generation service
  is the parameter \<open>generate\<close>. The arithmetic is the exact one.\<close>

definition spec_collaborators ::
  "(string \<Rightarrow> string \<Rightarrow> real) \<Rightarrow> (request \<Rightarrow> completion result) \<Rightarrow> (index, disk) collaborators" where
  "spec_collaborators distance generate =
     \<lparr>split_text = chunker,
      path_exists = (\<lambda>fs path. fs path \<noteq> None),
      load_local = (\<lambda>fs path.
        case fs path of
          Some (Stored idx) \<Rightarrow> Inr idx
        | _ \<Rightarrow> Inl (Exception ''deserialization error'')),
      from_documents = (\<lambda>documents. Inr documents),
      makedirs = (\<lambda>fs path. Inr (case fs path of None \<Rightarrow> fs(path \<mapsto> Folder) | Some _ \<Rightarrow> fs)),
      save_local = (\<lambda>fs idx path. Inr (fs(path \<mapsto> Stored idx))),
      similarity_search = (\<lambda>idx query k. Inr (map fst (search distance idx query k))),
      similarity_search_with_score = (\<lambda>idx query k. Inr (search distance idx query k)),
      chat_completions_create = generate,
      float_sub = (\<lambda>x y. x - y),
      float_mul = (\<lambda>x y. x * y),
      float_round = py_round\<rparr>"

section \<open>Properties of the code\<close>

subsection \<open>Retrieval and the two loops\<close>

lemma get_relevant_context_world: "snd (get_relevant_context c vs q k w) = w"
  by (simp add: get_relevant_context_def Let_def split: sum.splits)

lemma get_relevant_context_default:
  "get_relevant_context c vs q None w = get_relevant_context c vs q (Some 3) w"
  by (simp add: get_relevant_context_def)

lemma get_relevant_context_Inr:
  "get_relevant_context c vs q k w = (Inr ctx, w') \<Longrightarrow> w' = w"
  using get_relevant_context_world [of c vs q k w] by simp

lemma extract_loop_world: "snd (extract_loop c st keys info w) = w"
proof (induction keys arbitrary: info)
  case Nil
  show ?case by simp
next
  case (Cons key keys)
  show ?case
  proof (cases "getitem queries key")
    case (Inl e)
    then show ?thesis by simp
  next
    case (Inr q)
    obtain r w1 where g: "get_relevant_context c st q None w = (r, w1)"
      by (cases "get_relevant_context c st q None w")
    with get_relevant_context_world [of c st q None w] have "w1 = w" by simp
    with Inr g Cons.IH show ?thesis by (cases r) simp_all
  qed
qed

lemma extract_loop_Inr:
  "extract_loop c st keys info w = (Inr info', w') \<Longrightarrow>
     dom info' = dom info \<union> set keys \<and>
     (\<forall>key. key \<notin> set keys \<longrightarrow> info' key = info key) \<and>
     (\<forall>key\<in>set keys. \<exists>q ctx. queries key = Some q \<and>
        get_relevant_context c st q (Some 3) w = (Inr ctx, w) \<and> info' key = Some ctx)"
proof (induction keys arbitrary: info)
  case Nil
  then show ?case by simp
next
  case (Cons key keys)
  from Cons.prems obtain q where q: "queries key = Some q"
    by (auto simp: getitem_def split: option.splits)
  obtain r w1 where g: "get_relevant_context c st q None w = (r, w1)"
    by (cases "get_relevant_context c st q None w")
  with get_relevant_context_world [of c st q None w] have w1: "w1 = w" by simp
  from Cons.prems q g obtain ctx where r: "r = Inr ctx"
    by (cases r) (auto simp: getitem_def)
  from Cons.prems q g r w1
  have rec: "extract_loop c st keys (info(key \<mapsto> ctx)) w = (Inr info', w')"
    by (simp add: getitem_def)
  note IH = Cons.IH [OF rec]
  have g3: "get_relevant_context c st q (Some 3) w = (Inr ctx, w)"
    using g r w1 by (simp add: get_relevant_context_default)
  have hd: "\<exists>q ctx. queries key = Some q \<and>
        get_relevant_context c st q (Some 3) w = (Inr ctx, w) \<and> info' key = Some ctx"
  proof (cases "key \<in> set keys")
    case True
    with IH show ?thesis by blast
  next
    case False
    with IH have "info' key = Some ctx" by simp
    with q g3 show ?thesis by blast
  qed
  from IH hd show ?case by auto
qed


lemma extract_loop_Inl:
  "extract_loop c st keys info w = (Inl e, w') \<Longrightarrow> set keys \<subseteq> dom queries \<Longrightarrow>
     \<exists>key\<in>set keys. \<exists>q. queries key = Some q \<and> similarity_search c st q 3 = Inl e"
proof (induction keys arbitrary: info)
  case Nil
  then show ?case by simp
next
  case (Cons key keys)
  from Cons.prems(2) obtain q where q: "queries key = Some q" by auto
  show ?case
  proof (cases "similarity_search c st q 3")
    case (Inl e0)
    with Cons.prems(1) q have "e0 = e"
      by (simp add: getitem_def get_relevant_context_def)
    with Inl q show ?thesis by auto
  next
    case (Inr docs)
    with Cons.prems(1) q
    have "extract_loop c st keys (info(key \<mapsto> join ''\<newline>'' (map page_content docs))) w = (Inl e, w')"
      by (simp add: getitem_def get_relevant_context_def)
    from Cons.IH [OF this] Cons.prems(2) show ?thesis by auto
  qed
qed

lemma extract_loop_aborts:
  "key \<in> set keys \<Longrightarrow> queries key = Some q \<Longrightarrow> similarity_search c st q 3 = Inl e \<Longrightarrow>
     \<exists>e'. fst (extract_loop c st keys info w) = Inl e'"
proof (induction keys arbitrary: info)
  case Nil
  then show ?case by simp
next
  case (Cons k keys)
  show ?case
  proof (cases "getitem queries k")
    case (Inl e0)
    then show ?thesis by simp
  next
    case (Inr q0)
    note q0 = Inr
    show ?thesis
    proof (cases "similarity_search c st q0 3")
      case (Inl e0)
      with q0 show ?thesis by (simp add: get_relevant_context_def)
    next
      case (Inr docs)
      with q0 Cons.prems have "key \<in> set keys"
        by (auto simp: getitem_def split: option.splits)
      from Cons.IH [OF this Cons.prems(2,3)] q0 Inr show ?thesis
        by (simp add: get_relevant_context_def)
    qed
  qed
qed

lemma extract_loop_total:
  "set keys \<subseteq> dom queries \<Longrightarrow>
   \<forall>key\<in>set keys. \<forall>q. queries key = Some q \<longrightarrow> (\<exists>docs. similarity_search c st q 3 = Inr docs) \<Longrightarrow>
     \<exists>info'. extract_loop c st keys info w = (Inr info', w)"
proof (induction keys arbitrary: info)
  case Nil
  then show ?case by simp
next
  case (Cons k keys)
  from Cons.prems(1) obtain q where q: "queries k = Some q" by auto
  with Cons.prems(2) obtain docs where d: "similarity_search c st q 3 = Inr docs" by auto
  from Cons.prems have "\<exists>info'. extract_loop c st keys (info(k \<mapsto> join ''\<newline>'' (map page_content docs))) w = (Inr info', w)"
    by (intro Cons.IH) auto
  with q d show ?case by (simp add: getitem_def get_relevant_context_def)
qed

lemma score_loop_world: "snd (score_loop c rs reqs scores w) = w"
  by (induction reqs arbitrary: scores) (auto split: sum.splits list.splits simp: Let_def)

lemma score_loop_Inl:
  "score_loop c rs reqs scores w = (Inl e, w') \<Longrightarrow>
     \<exists>req\<in>set reqs. similarity_search_with_score c rs req 1 = Inl e"
  by (induction reqs arbitrary: scores) (auto split: sum.splits list.splits simp: Let_def)

lemma score_loop_aborts:
  "req \<in> set reqs \<Longrightarrow> similarity_search_with_score c rs req 1 = Inl e \<Longrightarrow>
     \<exists>e'. fst (score_loop c rs reqs scores w) = Inl e'"
  by (induction reqs arbitrary: scores) (auto split: sum.splits list.splits simp: Let_def)

lemma score_loop_first_failure:
  "\<forall>r\<in>set pre. \<exists>m. similarity_search_with_score c rs r 1 = Inr m \<Longrightarrow>
   similarity_search_with_score c rs req 1 = Inl e \<Longrightarrow>
     score_loop c rs (pre @ req # post) scores w = (Inl e, w)"
  by (induction pre arbitrary: scores) (auto split: sum.splits list.splits simp: Let_def)


lemma dom_if_upd: "dom (\<lambda>a. if a = k then Some v else m a) = insert k (dom m)"
  by (auto simp: dom_def)

lemma score_loop_dom:
  "score_loop c rs reqs scores w = (Inr scores', w') \<Longrightarrow>
     dom scores' = dom scores \<union>
       {strip req | req. req \<in> set reqs \<and>
          (\<exists>m ms. similarity_search_with_score c rs req 1 = Inr (m # ms))}"
proof (induction reqs arbitrary: scores)
  case Nil
  then show ?case by auto
next
  case (Cons req reqs)
  show ?case
  proof (cases "similarity_search_with_score c rs req 1")
    case (Inl e)
    with Cons.prems show ?thesis by simp
  next
    case (Inr matches)
    show ?thesis
    proof (cases matches)
      case Nil
      with Inr Cons.prems have "score_loop c rs reqs scores w = (Inr scores', w')" by simp
      from Cons.IH [OF this] Inr Nil show ?thesis by auto
    next
      case (Cons m ms)
      with Inr Cons.prems
      have "score_loop c rs reqs (scores(strip req \<mapsto> float_round c (float_mul c (float_sub c 1 (snd m)) 100) 2)) w
              = (Inr scores', w')" by (simp add: Let_def)
      from Cons.IH [OF this]
      have d: "dom scores' = insert (strip req) (dom scores) \<union>
         {strip r | r. r \<in> set reqs \<and>
            (\<exists>m ms. similarity_search_with_score c rs r 1 = Inr (m # ms))}"
        by (simp add: dom_if_upd)
      have "{strip r | r. r \<in> set (req # reqs) \<and>
            (\<exists>m ms. similarity_search_with_score c rs r 1 = Inr (m # ms))}
          = insert (strip req) {strip r | r. r \<in> set reqs \<and>
            (\<exists>m ms. similarity_search_with_score c rs r 1 = Inr (m # ms))}"
        using Inr Cons by auto
      with d show ?thesis by auto
    qed
  qed
qed




lemma extract_key_information_world: "snd (extract_key_information c rs js w) = w"
proof -
  obtain r w1 where a: "extract_loop c rs resume_keys Map.empty w = (r, w1)"
    by (cases "extract_loop c rs resume_keys Map.empty w")
  with extract_loop_world [of c rs resume_keys Map.empty w] have "w1 = w" by simp
  with a show ?thesis
    by (cases r) (simp_all add: extract_key_information_def extract_loop_world)
qed

lemma keys_in_queries: "set resume_keys \<subseteq> dom queries" "set jd_keys \<subseteq> dom queries"
  by (simp_all add: resume_keys_def jd_keys_def queries_def)

lemma jd_keys_not_resume: "key \<in> set resume_keys \<Longrightarrow> key \<notin> set jd_keys"
  by (auto simp: resume_keys_def jd_keys_def)

lemma extract_key_information_Inr:
  assumes "extract_key_information c rs js w = (Inr info, w')"
  shows "dom info = set resume_keys \<union> set jd_keys"
    and "\<forall>key\<in>set resume_keys. \<exists>q ctx. queries key = Some q \<and>
           get_relevant_context c rs q (Some 3) w = (Inr ctx, w) \<and> info key = Some ctx"
    and "\<forall>key\<in>set jd_keys. \<exists>q ctx. queries key = Some q \<and>
           get_relevant_context c js q (Some 3) w = (Inr ctx, w) \<and> info key = Some ctx"
proof -
  obtain r w1 where a: "extract_loop c rs resume_keys Map.empty w = (r, w1)"
    by (cases "extract_loop c rs resume_keys Map.empty w")
  with extract_loop_world [of c rs resume_keys Map.empty w] have w1: "w1 = w" by simp
  from assms a obtain info1 where r: "r = Inr info1"
    by (cases r) (simp_all add: extract_key_information_def)
  from assms a r w1 have b: "extract_loop c js jd_keys info1 w = (Inr info, w')"
    by (simp add: extract_key_information_def)
  note A = extract_loop_Inr [OF a [unfolded r w1]]
  note B = extract_loop_Inr [OF b]
  from A B show "dom info = set resume_keys \<union> set jd_keys" by auto
  from B show "\<forall>key\<in>set jd_keys. \<exists>q ctx. queries key = Some q \<and>
           get_relevant_context c js q (Some 3) w = (Inr ctx, w) \<and> info key = Some ctx"
    by blast
  show "\<forall>key\<in>set resume_keys. \<exists>q ctx. queries key = Some q \<and>
           get_relevant_context c rs q (Some 3) w = (Inr ctx, w) \<and> info key = Some ctx"
  proof
    fix key assume k: "key \<in> set resume_keys"
    with jd_keys_not_resume B have "info key = info1 key" by blast
    with A k show "\<exists>q ctx. queries key = Some q \<and>
           get_relevant_context c rs q (Some 3) w = (Inr ctx, w) \<and> info key = Some ctx"
      by force
  qed
qed

lemma extract_key_information_Inl:
  assumes "extract_key_information c rs js w = (Inl e, w')"
  shows "(\<exists>key\<in>set resume_keys. \<exists>q. queries key = Some q \<and> similarity_search c rs q 3 = Inl e) \<or>
         (\<exists>key\<in>set jd_keys. \<exists>q. queries key = Some q \<and> similarity_search c js q 3 = Inl e)"
proof -
  obtain r w1 where a: "extract_loop c rs resume_keys Map.empty w = (r, w1)"
    by (cases "extract_loop c rs resume_keys Map.empty w")
  show ?thesis
  proof (cases r)
    case (Inl e0)
    with assms a have "e0 = e" by (simp add: extract_key_information_def)
    with a Inl extract_loop_Inl [of c rs resume_keys Map.empty w e w1] keys_in_queries(1)
    show ?thesis by blast
  next
    case (Inr info1)
    with assms a have "extract_loop c js jd_keys info1 w1 = (Inl e, w')"
      by (simp add: extract_key_information_def)
    from extract_loop_Inl [OF this keys_in_queries(2)] show ?thesis by blast
  qed
qed

lemma extract_key_information_aborts:
  assumes "queries key = Some q"
    and "key \<in> set resume_keys \<and> similarity_search c rs q 3 = Inl e \<or>
         key \<in> set jd_keys \<and> similarity_search c js q 3 = Inl e"
  shows "\<exists>e'. extract_key_information c rs js w = (Inl e', w)"
proof -
  obtain r w1 where a: "extract_loop c rs resume_keys Map.empty w = (r, w1)"
    by (cases "extract_loop c rs resume_keys Map.empty w")
  with extract_loop_world [of c rs resume_keys Map.empty w] have w1: "w1 = w" by simp
  show ?thesis
  proof (cases r)
    case (Inl e0)
    with a w1 show ?thesis by (simp add: extract_key_information_def)
  next
    case (Inr info1)
    with a assms extract_loop_aborts [of key resume_keys q c rs e Map.empty w]
    have k: "key \<in> set jd_keys" "similarity_search c js q 3 = Inl e" by auto
    from extract_loop_aborts [OF k(1) assms(1) k(2), of info1 w]
    obtain e' where "fst (extract_loop c js jd_keys info1 w) = Inl e'" by blast
    with extract_loop_world [of c js jd_keys info1 w]
    have "extract_loop c js jd_keys info1 w = (Inl e', w)"
      by (cases "extract_loop c js jd_keys info1 w") simp
    with a Inr w1 show ?thesis by (simp add: extract_key_information_def)
  qed
qed

lemma interpolate_total:
  "snd ` set parts \<subseteq> dom info \<Longrightarrow> \<exists>s. interpolate info parts = Inr s"
proof (induction parts)
  case Nil
  show ?case by simp
next
  case (Cons p parts)
  obtain lit key where p: "p = (lit, key)" by (cases p)
  with Cons.prems obtain v where v: "info key = Some v" by auto
  from Cons obtain s where "interpolate info parts = Inr s" by auto
  with p v show ?case by (simp add: getitem_def)
qed

lemma user_content_total:
  "dom info = set resume_keys \<union> set jd_keys \<Longrightarrow> \<exists>user. user_content info hr_email = Inr user"
proof -
  assume d: "dom info = set resume_keys \<union> set jd_keys"
  let ?parts = "[(user_opening, ''technical_skills''),
              (heading ''Soft Skills:'', ''soft_skills''),
              (heading ''Relevant Experience:'', ''experience''),
              (heading ''Education:'', ''education''),
              (heading ''Job Requirements:'', ''job_requirements''),
              (heading ''Job Responsibilities:'', ''job_responsibilities'')]"
  have "snd ` set ?parts \<subseteq> dom info"
    unfolding d by (simp add: resume_keys_def jd_keys_def)
  from interpolate_total [OF this] obtain s where "interpolate info ?parts = Inr s" ..
  then show ?thesis by (simp add: user_content_def)
qed

lemma generate_cover_letter_files_snd:
  "files (snd (generate_cover_letter c rs js hr w)) = files w"
proof -
  have "snd (generate_cover_letter_try c rs js hr w) = w"
    using extract_key_information_world [of c rs js w]
    by (cases "extract_key_information c rs js w")
       (auto simp: generate_cover_letter_try_def split: sum.splits list.splits)
  then show ?thesis
    by (cases "generate_cover_letter_try c rs js hr w")
       (auto simp: generate_cover_letter_def print_def split: sum.splits)
qed

lemma generate_cover_letter_try_world:
  "snd (generate_cover_letter_try c rs js hr w) = w"
  using extract_key_information_world [of c rs js w]
  by (cases "extract_key_information c rs js w")
     (auto simp: generate_cover_letter_try_def split: sum.splits list.splits)

lemma extract_loop_first_failure:
  "\<forall>k\<in>set pre. \<exists>q docs. queries k = Some q \<and> similarity_search c st q 3 = Inr docs \<Longrightarrow>
   queries key = Some q \<Longrightarrow> similarity_search c st q 3 = Inl e \<Longrightarrow>
     extract_loop c st (pre @ key # post) info w = (Inl e, w)"
proof (induction pre arbitrary: info)
  case Nil
  then show ?case by (simp add: getitem_def get_relevant_context_def)
next
  case (Cons k pre)
  from Cons.prems(1) obtain q0 docs where
    k: "queries k = Some q0" "similarity_search c st q0 3 = Inr docs" by auto
  from Cons.prems have "extract_loop c st (pre @ key # post)
      (info(k \<mapsto> join ''\<newline>'' (map page_content docs))) w = (Inl e, w)"
    by (intro Cons.IH) auto
  with k show ?case by (simp add: getitem_def get_relevant_context_def)
qed

lemma calculate_match_scores_world: "snd (calculate_match_scores c self rs js w) = w"
  by (simp add: calculate_match_scores_def get_relevant_context_def score_loop_world
        split: sum.splits)

subsection \<open>Failure containment in \<^verbatim>\<open>generate_cover_letter\<close>\<close>

text \<open>
  Claim C1. \<^verbatim>\<open>generate_cover_letter\<close> never raises: for every behaviour of the
  collaborators, every pair of stores and every \<^verbatim>\<open>hr_email\<close> it returns a value. When
  an exception is raised during extraction, by the generation service, or by
  \<^verbatim>\<open>choices[0]\<close> on an empty answer, the method prints
  \<^verbatim>\<open>Error generating cover letter: \<close> followed by the exception's text and returns
  \<^verbatim>\<open>None\<close>. Building the prompt from an extracted bundle raises nothing, since the
  bundle holds all six labels. When nothing is raised the method returns the content of
  the first choice.
\<close>

theorem generate_cover_letter_contains_failures:
  "(\<exists>letter w'. generate_cover_letter c rs js hr w = (Inr letter, w')) \<and>
   (\<forall>e. fst (extract_key_information c rs js w) = Inl e \<longrightarrow>
      generate_cover_letter c rs js hr w =
        (Inr None, print (''Error generating cover letter: '' @ str e) w)) \<and>
   (\<forall>info. fst (extract_key_information c rs js w) = Inr info \<longrightarrow>
      (\<exists>user. user_content info hr = Inr user)) \<and>
   (\<forall>info user e. fst (extract_key_information c rs js w) = Inr info \<longrightarrow>
      user_content info hr = Inr user \<longrightarrow>
      chat_completions_create c (completion_request user) = Inl e \<longrightarrow>
      generate_cover_letter c rs js hr w =
        (Inr None, print (''Error generating cover letter: '' @ str e) w)) \<and>
   (\<forall>info user. fst (extract_key_information c rs js w) = Inr info \<longrightarrow>
      user_content info hr = Inr user \<longrightarrow>
      chat_completions_create c (completion_request user) = Inr (Completion []) \<longrightarrow>
      generate_cover_letter c rs js hr w =
        (Inr None, print ''Error generating cover letter: list index out of range'' w)) \<and>
   (\<forall>info user first rest. fst (extract_key_information c rs js w) = Inr info \<longrightarrow>
      user_content info hr = Inr user \<longrightarrow>
      chat_completions_create c (completion_request user) = Inr (Completion (first # rest)) \<longrightarrow>
      generate_cover_letter c rs js hr w = (Inr first, w))"
proof -
  obtain r where x: "extract_key_information c rs js w = (r, w)"
    using extract_key_information_world [of c rs js w]
    by (cases "extract_key_information c rs js w") simp
  have 1: "\<exists>letter w'. generate_cover_letter c rs js hr w = (Inr letter, w')"
    by (cases "generate_cover_letter_try c rs js hr w")
       (auto simp: generate_cover_letter_def split: sum.splits)
  have 3: "\<forall>info. fst (extract_key_information c rs js w) = Inr info \<longrightarrow>
      (\<exists>user. user_content info hr = Inr user)"
  proof (intro allI impI)
    fix info
    assume "fst (extract_key_information c rs js w) = Inr info"
    with x have "extract_key_information c rs js w = (Inr info, w)" by simp
    from extract_key_information_Inr(1) [OF this]
    show "\<exists>user. user_content info hr = Inr user" by (rule user_content_total)
  qed
  from x show ?thesis
    by (intro conjI 1 3)
       (auto simp: generate_cover_letter_def generate_cover_letter_try_def)
qed

lemma spec_similarity_search [simp]:
  "similarity_search (spec_collaborators distance generate) idx q k =
     Inr (map fst (search distance idx q k))"
  by (simp add: spec_collaborators_def)

lemma spec_similarity_search_with_score [simp]:
  "similarity_search_with_score (spec_collaborators distance generate) idx q k =
     Inr (search distance idx q k)"
  by (simp add: spec_collaborators_def)

lemma spec_chat [simp]:
  "chat_completions_create (spec_collaborators distance generate) = generate"
  by (simp add: spec_collaborators_def)

lemma spec_arithmetic [simp]:
  "float_sub (spec_collaborators distance generate) = (\<lambda>x y. x - y)"
  "float_mul (spec_collaborators distance generate) = (\<lambda>x y. x * y)"
  "float_round (spec_collaborators distance generate) = py_round"
  by (simp_all add: spec_collaborators_def)

lemma spec_extract_returns:
  "\<exists>info. extract_key_information (spec_collaborators distance generate) rs js w = (Inr info, w)"
proof -
  let ?c = "spec_collaborators distance generate"
  obtain r where x: "extract_key_information ?c rs js w = (r, w)"
    using extract_key_information_world [of ?c rs js w]
    by (cases "extract_key_information ?c rs js w") simp
  show ?thesis
  proof (cases r)
    case (Inl e)
    with x extract_key_information_Inl [of ?c rs js w e w] show ?thesis by simp
  next
    case (Inr info)
    with x show ?thesis by simp
  qed
qed

text \<open>Four runs on the same stores. The generation service refuses the request; it
  answers without a choice; the index raises during extraction: each time the letter
  is absent and the error is printed. The service answers: the letter is its first
  choice and nothing is printed.\<close>

theorem generate_cover_letter_contains_failures_witness:
  "generate_cover_letter
     (spec_collaborators (\<lambda>q t. 0) (\<lambda>r. Inl (Exception ''quota exceeded'')))
     [Document ''Python and SQL''] [Document ''Python required''] ''hr@example.com''
     \<lparr>files = Map.empty, stdout = []\<rparr>
   = (Inr None,
      \<lparr>files = Map.empty, stdout = [''Error generating cover letter: quota exceeded'']\<rparr>) \<and>
   generate_cover_letter
     (spec_collaborators (\<lambda>q t. 0) (\<lambda>r. Inr (Completion [])))
     [Document ''Python and SQL''] [Document ''Python required''] ''hr@example.com''
     \<lparr>files = Map.empty, stdout = []\<rparr>
   = (Inr None,
      \<lparr>files = Map.empty,
       stdout = [''Error generating cover letter: list index out of range'']\<rparr>) \<and>
   generate_cover_letter
     (spec_collaborators (\<lambda>q t. 0) (\<lambda>r. Inr (Completion []))
        \<lparr>similarity_search := \<lambda>idx q k. Inl (Exception ''index is closed'')\<rparr>)
     [Document ''Python and SQL''] [Document ''Python required''] ''hr@example.com''
     \<lparr>files = Map.empty, stdout = []\<rparr>
   = (Inr None,
      \<lparr>files = Map.empty, stdout = [''Error generating cover letter: index is closed'']\<rparr>) \<and>
   generate_cover_letter
     (spec_collaborators (\<lambda>q t. 0) (\<lambda>r. Inr (Completion [Some ''Subject: Application'', None])))
     [Document ''Python and SQL''] [Document ''Python required''] ''hr@example.com''
     \<lparr>files = Map.empty, stdout = []\<rparr>
   = (Inr (Some ''Subject: Application''), \<lparr>files = Map.empty, stdout = []\<rparr>)"
proof -
  let ?refuse = "spec_collaborators (\<lambda>q t. 0) (\<lambda>r. Inl (Exception ''quota exceeded''))"
  let ?silent = "spec_collaborators (\<lambda>q t. 0) (\<lambda>r. Inr (Completion []))"
  let ?closed = "?silent\<lparr>similarity_search := \<lambda>idx q k. Inl (Exception ''index is closed'')\<rparr>"
  let ?answer = "spec_collaborators (\<lambda>q t. 0)
                   (\<lambda>r. Inr (Completion [Some ''Subject: Application'', None]))"
  let ?rs = "[Document ''Python and SQL'']" and ?js = "[Document ''Python required'']"
  let ?hr = "''hr@example.com''"
  let ?w = "\<lparr>files = Map.empty :: disk, stdout = []\<rparr>"
  have a: "generate_cover_letter ?refuse ?rs ?js ?hr ?w =
        (Inr None, print (''Error generating cover letter: '' @ str (Exception ''quota exceeded'')) ?w)"
  proof -
    note T = generate_cover_letter_contains_failures [of ?refuse ?rs ?js ?hr ?w]
    obtain info where "extract_key_information ?refuse ?rs ?js ?w = (Inr info, ?w)"
      using spec_extract_returns by blast
    then have x: "fst (extract_key_information ?refuse ?rs ?js ?w) = Inr info" by simp
    from T [THEN conjunct2, THEN conjunct2, THEN conjunct1, rule_format, OF x]
    obtain user where u: "user_content info ?hr = Inr user" ..
    have g: "chat_completions_create ?refuse (completion_request user)
               = Inl (Exception ''quota exceeded'')" by simp
    from T [THEN conjunct2, THEN conjunct2, THEN conjunct2, THEN conjunct1, rule_format,
            OF x u g]
    show ?thesis .
  qed
  have b: "generate_cover_letter ?silent ?rs ?js ?hr ?w =
        (Inr None, print ''Error generating cover letter: list index out of range'' ?w)"
  proof -
    note T = generate_cover_letter_contains_failures [of ?silent ?rs ?js ?hr ?w]
    obtain info where "extract_key_information ?silent ?rs ?js ?w = (Inr info, ?w)"
      using spec_extract_returns by blast
    then have x: "fst (extract_key_information ?silent ?rs ?js ?w) = Inr info" by simp
    from T [THEN conjunct2, THEN conjunct2, THEN conjunct1, rule_format, OF x]
    obtain user where u: "user_content info ?hr = Inr user" ..
    have g: "chat_completions_create ?silent (completion_request user) = Inr (Completion [])"
      by simp
    from T [THEN conjunct2, THEN conjunct2, THEN conjunct2, THEN conjunct2, THEN conjunct1,
            rule_format, OF x u g]
    show ?thesis .
  qed
  have c: "generate_cover_letter ?closed ?rs ?js ?hr ?w =
        (Inr None, print (''Error generating cover letter: '' @ str (Exception ''index is closed'')) ?w)"
  proof -
    note T = generate_cover_letter_contains_failures [of ?closed ?rs ?js ?hr ?w]
    obtain q where q: "queries ''technical_skills'' = Some q"
      using keys_in_queries(1) by (auto simp: resume_keys_def)
    have s: "similarity_search ?closed ?rs q 3 = Inl (Exception ''index is closed'')" by simp
    have "extract_loop ?closed ?rs
            ([] @ ''technical_skills'' # [''soft_skills'', ''experience'', ''education''])
            Map.empty ?w = (Inl (Exception ''index is closed''), ?w)"
      by (rule extract_loop_first_failure [OF _ q s]) simp
    then have x: "fst (extract_key_information ?closed ?rs ?js ?w)
        = Inl (Exception ''index is closed'')"
      by (simp add: extract_key_information_def resume_keys_def)
    from T [THEN conjunct2, THEN conjunct1, rule_format, OF x] show ?thesis .
  qed
  have d: "generate_cover_letter ?answer ?rs ?js ?hr ?w = (Inr (Some ''Subject: Application''), ?w)"
  proof -
    note T = generate_cover_letter_contains_failures [of ?answer ?rs ?js ?hr ?w]
    obtain info where "extract_key_information ?answer ?rs ?js ?w = (Inr info, ?w)"
      using spec_extract_returns by blast
    then have x: "fst (extract_key_information ?answer ?rs ?js ?w) = Inr info" by simp
    from T [THEN conjunct2, THEN conjunct2, THEN conjunct1, rule_format, OF x]
    obtain user where u: "user_content info ?hr = Inr user" ..
    have g: "chat_completions_create ?answer (completion_request user)
        = Inr (Completion (Some ''Subject: Application'' # [None]))"
      by simp
    from T [THEN conjunct2, THEN conjunct2, THEN conjunct2, THEN conjunct2, THEN conjunct2,
            rule_format, OF x u g]
    show ?thesis .
  qed
  from a b c d show ?thesis by (simp add: print_def)
qed

subsection \<open>The extraction bundle\<close>

text \<open>
  Claim C3. \<^verbatim>\<open>extract_key_information\<close> either passes on an exception that one of its six
  searches raised, or returns a mapping whose keys are exactly the six topic labels. The
  first four labels hold what \<^verbatim>\<open>get_relevant_context\<close> returns for the label's query on
  the resume store, the last two what it returns on the job-description store, each with
  \<open>k = 3\<close>. A label whose retrieval found nothing is present with the empty string, the
  join of no documents.
\<close>

theorem extract_key_information_bundle:
  "case extract_key_information c rs js w of
     (Inr info, w') \<Rightarrow>
       w' = w \<and>
       dom info = {''technical_skills'', ''soft_skills'', ''experience'', ''education'',
                   ''job_requirements'', ''job_responsibilities''} \<and>
       (\<forall>key\<in>{''technical_skills'', ''soft_skills'', ''experience'', ''education''}.
          \<exists>query context. queries key = Some query \<and>
            get_relevant_context c rs query (Some 3) w = (Inr context, w) \<and>
            info key = Some context) \<and>
       (\<forall>key\<in>{''job_requirements'', ''job_responsibilities''}.
          \<exists>query context. queries key = Some query \<and>
            get_relevant_context c js query (Some 3) w = (Inr context, w) \<and>
            info key = Some context)
   | (Inl e, w') \<Rightarrow>
       (\<exists>key\<in>{''technical_skills'', ''soft_skills'', ''experience'', ''education''}.
          \<exists>query. queries key = Some query \<and> similarity_search c rs query 3 = Inl e) \<or>
       (\<exists>key\<in>{''job_requirements'', ''job_responsibilities''}.
          \<exists>query. queries key = Some query \<and> similarity_search c js query 3 = Inl e)"
proof -
  have rk: "set resume_keys = {''technical_skills'', ''soft_skills'', ''experience'', ''education''}"
    by (simp add: resume_keys_def)
  have jk: "set jd_keys = {''job_requirements'', ''job_responsibilities''}"
    by (simp add: jd_keys_def)
  obtain r where x: "extract_key_information c rs js w = (r, w)"
    using extract_key_information_world [of c rs js w]
    by (cases "extract_key_information c rs js w") simp
  show ?thesis
  proof (cases r)
    case (Inl e)
    with x extract_key_information_Inl [of c rs js w e w] show ?thesis
      unfolding rk jk by simp
  next
    case (Inr info)
    with x have y: "extract_key_information c rs js w = (Inr info, w)" by simp
    have "dom info = {''technical_skills'', ''soft_skills'', ''experience'', ''education'',
                   ''job_requirements'', ''job_responsibilities''}"
      using extract_key_information_Inr(1) [OF y] unfolding rk jk by auto
    with extract_key_information_Inr(2,3) [OF y] y show ?thesis
      unfolding rk jk by simp
  qed
qed

text \<open>A resume of one chunk and an empty job description: all six labels are there, the
  two of the job description with empty context.\<close>

theorem extract_key_information_bundle_witness:
  "\<exists>info. extract_key_information (spec_collaborators (\<lambda>q t. 0) (\<lambda>r. Inr (Completion [])))
       [Document ''Python and SQL''] [] \<lparr>files = Map.empty, stdout = []\<rparr>
     = (Inr info, \<lparr>files = Map.empty, stdout = []\<rparr>) \<and>
     dom info = {''technical_skills'', ''soft_skills'', ''experience'', ''education'',
                 ''job_requirements'', ''job_responsibilities''} \<and>
     info ''technical_skills'' = Some ''Python and SQL'' \<and>
     info ''job_requirements'' = Some ''''"
proof -
  let ?c = "spec_collaborators (\<lambda>q t. 0) (\<lambda>r. Inr (Completion []))"
  let ?rs = "[Document ''Python and SQL'']"
  let ?w = "\<lparr>files = Map.empty :: disk, stdout = []\<rparr>"
  obtain info where x: "extract_key_information ?c ?rs [] ?w = (Inr info, ?w)"
    using spec_extract_returns by blast
  have r: "get_relevant_context ?c ?rs q (Some 3) ?w = (Inr ''Python and SQL'', ?w)" for q
    by (simp add: get_relevant_context_def search_def)
  have j: "get_relevant_context ?c [] q (Some 3) ?w = (Inr '''', ?w)" for q
    by (simp add: get_relevant_context_def search_def)
  from extract_key_information_bundle [of ?c ?rs "[]" ?w] x r j
  have "dom info = {''technical_skills'', ''soft_skills'', ''experience'', ''education'',
                 ''job_requirements'', ''job_responsibilities''} \<and>
     info ''technical_skills'' = Some ''Python and SQL'' \<and>
     info ''job_requirements'' = Some ''''"
    by auto
  with x show ?thesis by blast
qed

subsection \<open>Where exceptions are not caught\<close>

text \<open>
  Claim C8. \<^verbatim>\<open>extract_key_information\<close> and \<^verbatim>\<open>calculate_match_scores\<close> have no handler.
  In \<^verbatim>\<open>extract_key_information\<close> the first search that raises ends the method with that
  very exception, whether it is a search of the resume store or, after the four resume
  searches returned, of the job-description store; and whatever exception leaves the
  method was raised by one of its searches. In \<^verbatim>\<open>calculate_match_scores\<close> an exception of
  the retrieval of the requirements, or of the first scored search that raises, leaves
  the method unchanged. \<^verbatim>\<open>generate_cover_letter\<close>, on the same failing extraction,
  returns \<^verbatim>\<open>None\<close>.
\<close>

theorem extraction_and_scoring_propagate:
  "(\<forall>pre key post query e.
      resume_keys = pre @ key # post \<longrightarrow>
      (\<forall>k\<in>set pre. \<exists>q docs. queries k = Some q \<and> similarity_search c rs q 3 = Inr docs) \<longrightarrow>
      queries key = Some query \<longrightarrow> similarity_search c rs query 3 = Inl e \<longrightarrow>
      extract_key_information c rs js w = (Inl e, w)) \<and>
   (\<forall>pre key post query e.
      (\<forall>k\<in>set resume_keys. \<exists>q docs. queries k = Some q \<and> similarity_search c rs q 3 = Inr docs) \<longrightarrow>
      jd_keys = pre @ key # post \<longrightarrow>
      (\<forall>k\<in>set pre. \<exists>q docs. queries k = Some q \<and> similarity_search c js q 3 = Inr docs) \<longrightarrow>
      queries key = Some query \<longrightarrow> similarity_search c js query 3 = Inl e \<longrightarrow>
      extract_key_information c rs js w = (Inl e, w)) \<and>
   (\<forall>e w'. extract_key_information c rs js w = (Inl e, w') \<longrightarrow>
      (\<exists>key\<in>set resume_keys. \<exists>q. queries key = Some q \<and> similarity_search c rs q 3 = Inl e) \<or>
      (\<exists>key\<in>set jd_keys. \<exists>q. queries key = Some q \<and> similarity_search c js q 3 = Inl e)) \<and>
   (\<forall>e. similarity_search c js ''What are the specific requirements and qualifications?'' 5 = Inl e \<longrightarrow>
      calculate_match_scores c self rs js w = (Inl e, w)) \<and>
   (\<forall>documents pre req post e.
      similarity_search c js ''What are the specific requirements and qualifications?'' 5
        = Inr documents \<longrightarrow>
      split_text c (text_splitter self) (join ''\<newline>'' (map page_content documents))
        = pre @ req # post \<longrightarrow>
      (\<forall>r\<in>set pre. \<exists>m. similarity_search_with_score c rs r 1 = Inr m) \<longrightarrow>
      similarity_search_with_score c rs req 1 = Inl e \<longrightarrow>
      calculate_match_scores c self rs js w = (Inl e, w)) \<and>
   (\<forall>e. fst (extract_key_information c rs js w) = Inl e \<longrightarrow>
      generate_cover_letter c rs js hr w =
        (Inr None, print (''Error generating cover letter: '' @ str e) w))"
proof (intro conjI allI impI)
  fix pre key post query e
  assume "resume_keys = pre @ key # post"
    and "\<forall>k\<in>set pre. \<exists>q docs. queries k = Some q \<and> similarity_search c rs q 3 = Inr docs"
    and "queries key = Some query" and "similarity_search c rs query 3 = Inl e"
  with extract_loop_first_failure [of pre c rs key query e post Map.empty w]
  show "extract_key_information c rs js w = (Inl e, w)"
    by (simp add: extract_key_information_def)
next
  fix pre key post query e
  assume a: "\<forall>k\<in>set resume_keys. \<exists>q docs. queries k = Some q \<and> similarity_search c rs q 3 = Inr docs"
    and b: "jd_keys = pre @ key # post"
    and c: "\<forall>k\<in>set pre. \<exists>q docs. queries k = Some q \<and> similarity_search c js q 3 = Inr docs"
    and d: "queries key = Some query" "similarity_search c js query 3 = Inl e"
  from a have "\<forall>key\<in>set resume_keys. \<forall>q. queries key = Some q \<longrightarrow>
      (\<exists>docs. similarity_search c rs q 3 = Inr docs)" by fastforce
  from extract_loop_total [OF keys_in_queries(1) this]
  obtain info1 where "extract_loop c rs resume_keys Map.empty w = (Inr info1, w)" by blast
  with extract_loop_first_failure [OF c d, of post info1 w] b
  show "extract_key_information c rs js w = (Inl e, w)"
    by (simp add: extract_key_information_def)
next
  fix e w'
  assume "extract_key_information c rs js w = (Inl e, w')"
  from extract_key_information_Inl [OF this]
  show "(\<exists>key\<in>set resume_keys. \<exists>q. queries key = Some q \<and> similarity_search c rs q 3 = Inl e) \<or>
      (\<exists>key\<in>set jd_keys. \<exists>q. queries key = Some q \<and> similarity_search c js q 3 = Inl e)" .
next
  fix e
  assume "similarity_search c js ''What are the specific requirements and qualifications?'' 5 = Inl e"
  then show "calculate_match_scores c self rs js w = (Inl e, w)"
    by (simp add: calculate_match_scores_def get_relevant_context_def)
next
  fix documents pre req post e
  assume "similarity_search c js ''What are the specific requirements and qualifications?'' 5
        = Inr documents"
    and "split_text c (text_splitter self) (join ''\<newline>'' (map page_content documents))
        = pre @ req # post"
    and "\<forall>r\<in>set pre. \<exists>m. similarity_search_with_score c rs r 1 = Inr m"
    and "similarity_search_with_score c rs req 1 = Inl e"
  then show "calculate_match_scores c self rs js w = (Inl e, w)"
    by (simp add: calculate_match_scores_def get_relevant_context_def score_loop_first_failure)
next
  fix e
  assume a: "fst (extract_key_information c rs js w) = Inl e"
  have "extract_key_information c rs js w = (Inl e, w)"
    using a extract_key_information_world [of c rs js w]
    by (cases "extract_key_information c rs js w") simp
  then show "generate_cover_letter c rs js hr w =
        (Inr None, print (''Error generating cover letter: '' @ str e) w)"
    by (simp add: generate_cover_letter_def generate_cover_letter_try_def)
qed

text \<open>An index whose searches raise: the two methods pass the exception on, the letter
  generator reports it and returns nothing. An index that raises only on the empty
  job-description store: the four resume searches return and the fifth search ends the
  extraction. An index whose scored search raises: the scoring ends at the first
  requirement.\<close>

theorem extraction_and_scoring_propagate_witness:
  "extract_key_information
     (spec_collaborators (\<lambda>q t. 0) (\<lambda>r. Inr (Completion []))
        \<lparr>similarity_search := \<lambda>idx q k. Inl (Exception ''index is closed'')\<rparr>)
     [] [] \<lparr>files = Map.empty, stdout = []\<rparr>
   = (Inl (Exception ''index is closed''), \<lparr>files = Map.empty, stdout = []\<rparr>) \<and>
   calculate_match_scores
     (spec_collaborators (\<lambda>q t. 0) (\<lambda>r. Inr (Completion []))
        \<lparr>similarity_search := \<lambda>idx q k. Inl (Exception ''index is closed'')\<rparr>)
     (init ''key'' None) [] [] \<lparr>files = Map.empty, stdout = []\<rparr>
   = (Inl (Exception ''index is closed''), \<lparr>files = Map.empty, stdout = []\<rparr>) \<and>
   generate_cover_letter
     (spec_collaborators (\<lambda>q t. 0) (\<lambda>r. Inr (Completion []))
        \<lparr>similarity_search := \<lambda>idx q k. Inl (Exception ''index is closed'')\<rparr>)
     [] [] ''hr@example.com'' \<lparr>files = Map.empty, stdout = []\<rparr>
   = (Inr None,
      \<lparr>files = Map.empty, stdout = [''Error generating cover letter: index is closed'']\<rparr>) \<and>
   extract_key_information
     (spec_collaborators (\<lambda>q t. 0) (\<lambda>r. Inr (Completion []))
        \<lparr>similarity_search :=
           \<lambda>idx q k. if idx = [] then Inl (Exception ''index is empty'') else Inr idx\<rparr>)
     [Document ''Python and SQL''] [] \<lparr>files = Map.empty, stdout = []\<rparr>
   = (Inl (Exception ''index is empty''), \<lparr>files = Map.empty, stdout = []\<rparr>) \<and>
   calculate_match_scores
     (spec_collaborators (\<lambda>q t. 0) (\<lambda>r. Inr (Completion []))
        \<lparr>similarity_search_with_score := \<lambda>idx q k. Inl (Exception ''index is closed'')\<rparr>)
     (init ''key'' None) [Document ''Python and SQL''] [Document '' Python required'']
     \<lparr>files = Map.empty, stdout = []\<rparr>
   = (Inl (Exception ''index is closed''), \<lparr>files = Map.empty, stdout = []\<rparr>)"
proof -
  let ?spec = "spec_collaborators (\<lambda>q t. 0) (\<lambda>r. Inr (Completion []))"
  let ?c = "?spec\<lparr>similarity_search := \<lambda>idx q k. Inl (Exception ''index is closed'')\<rparr>"
  let ?w = "\<lparr>files = Map.empty :: disk, stdout = []\<rparr>"
  let ?e = "Exception ''index is closed''"
  note T = extraction_and_scoring_propagate
    [of ?c "[]" "[]" ?w "init ''key'' None" "''hr@example.com''"]
  have s: "similarity_search ?c idx q k = Inl ?e" for idx q k by simp
  have k: "resume_keys = [] @ ''technical_skills'' # [''soft_skills'', ''experience'', ''education'']"
    by (simp add: resume_keys_def)
  obtain q where q: "queries ''technical_skills'' = Some q"
    using keys_in_queries(1) by (auto simp: resume_keys_def)
  have x: "extract_key_information ?c [] [] ?w = (Inl ?e, ?w)"
    using T [THEN conjunct1, rule_format, OF k _ q s] by simp
  have y: "calculate_match_scores ?c (init ''key'' None) [] [] ?w = (Inl ?e, ?w)"
    using T [THEN conjunct2, THEN conjunct2, THEN conjunct2, THEN conjunct1, rule_format, OF s] .
  from x have f: "fst (extract_key_information ?c [] [] ?w) = Inl ?e" by simp
  have z: "generate_cover_letter ?c [] [] ''hr@example.com'' ?w =
        (Inr None, print (''Error generating cover letter: '' @ str ?e) ?w)"
    using T [THEN conjunct2, THEN conjunct2, THEN conjunct2, THEN conjunct2, THEN conjunct2,
             rule_format, OF f] .
  let ?j = "?spec\<lparr>similarity_search :=
           \<lambda>idx q k. if idx = [] then Inl (Exception ''index is empty'') else Inr idx\<rparr>"
  let ?rs = "[Document ''Python and SQL'']"
  have u: "extract_key_information ?j ?rs [] ?w = (Inl (Exception ''index is empty''), ?w)"
  proof -
    note J = extraction_and_scoring_propagate
      [of ?j ?rs "[]" ?w "init ''key'' None" "''hr@example.com''"]
    have r: "\<exists>q docs. queries k = Some q \<and> similarity_search ?j ?rs q 3 = Inr docs"
      if "k \<in> set resume_keys" for k
      using that keys_in_queries(1) by auto
    have jk: "jd_keys = [] @ ''job_requirements'' # [''job_responsibilities'']"
      by (simp add: jd_keys_def)
    obtain q where q: "queries ''job_requirements'' = Some q"
      using keys_in_queries(2) by (auto simp: jd_keys_def)
    have s: "similarity_search ?j [] q 3 = Inl (Exception ''index is empty'')" by simp
    show ?thesis
      using J [THEN conjunct2, THEN conjunct1, rule_format, OF r jk _ q s] by simp
  qed
  let ?m = "?spec\<lparr>similarity_search_with_score := \<lambda>idx q k. Inl ?e\<rparr>"
  let ?js = "[Document '' Python required'']"
  have v: "calculate_match_scores ?m (init ''key'' None) ?rs ?js ?w = (Inl ?e, ?w)"
  proof -
    note M = extraction_and_scoring_propagate
      [of ?m ?rs ?js ?w "init ''key'' None" "''hr@example.com''"]
    have d: "similarity_search ?m ?js
        ''What are the specific requirements and qualifications?'' 5 = Inr ?js"
      by (simp add: spec_collaborators_def search_def)
    have ch: "split_text ?m (text_splitter (init ''key'' None))
        (join ''\<newline>'' (map page_content ?js)) = [] @ ''Python required'' # []"
      by (simp add: spec_collaborators_def chunker_def init_def split_on_def emit_def strip_def
            isspace_def)
    have s: "similarity_search_with_score ?m ?rs ''Python required'' 1 = Inl ?e" by simp
    show ?thesis
      using M [THEN conjunct2, THEN conjunct2, THEN conjunct2, THEN conjunct2, THEN conjunct1,
               rule_format, OF d ch _ s] by simp
  qed
  from x y z u v show ?thesis by (simp add: print_def)
qed

subsection \<open>What the methods leave untouched\<close>

text \<open>
  Claim C10. \<^verbatim>\<open>get_relevant_context\<close>, \<^verbatim>\<open>extract_key_information\<close> and
  \<^verbatim>\<open>calculate_match_scores\<close> return the world they were given, filesystem and printed
  output, for every input and also when they raise; the only calls they make on a store
  are searches, which return documents and no store. \<^verbatim>\<open>generate_cover_letter\<close> leaves
  the filesystem as it was. \<^verbatim>\<open>load_or_create_vector_store\<close> writes: on a storage that holds
  nothing at the store path, the index is stored there afterwards.
\<close>

theorem query_operations_read_only:
  "snd (get_relevant_context c vs q k w) = w \<and>
   snd (extract_key_information c rs js w) = w \<and>
   snd (calculate_match_scores c self rs js w) = w \<and>
   files (snd (generate_cover_letter c rs js hr w)) = files w \<and>
   files (snd (load_or_create_vector_store (spec_collaborators distance generate) self text name
                 \<lparr>files = Map.empty, stdout = out\<rparr>))
     (os_path_join (vector_store_path self) name)
     = Some (Stored (map Document (chunker (text_splitter self) text)))"
  by (simp add: get_relevant_context_world extract_key_information_world
        calculate_match_scores_world generate_cover_letter_files_snd
        load_or_create_vector_store_def create_vector_store_def spec_collaborators_def Let_def)

subsection \<open>Loading, and rebuilding when loading fails\<close>

lemma chunker_example:
  "chunker (text_splitter (init key None)) ''Python and SQL'' = [''Python and SQL'']"
  by (simp add: chunker_def init_def split_on_def emit_def strip_def isspace_def)

lemma chunker_example2:
  "chunker (text_splitter (init key None)) ''Python required\<newline>SQL'' = [''Python required\<newline>SQL'']"
  by (simp add: chunker_def init_def split_on_def emit_def strip_def isspace_def)

lemma path_example: "os_path_join (vector_store_path (init key None)) ''resume'' = ''vector_indices/resume''"
  by (simp add: os_path_join_def init_def)


lemma files_print: "files (print line w) = files w"
  by (simp add: print_def)

lemma stdout_print: "stdout (print line w) = stdout w @ [line]"
  by (simp add: print_def)

lemma create_vector_store_print:
  "create_vector_store c self text p (print line w) =
     (fst (create_vector_store c self text p w),
      print line (snd (create_vector_store c self text p w)))"
  by (simp add: create_vector_store_def print_def Let_def split: sum.splits)

lemma create_vector_store_stdout:
  "stdout (snd (create_vector_store c self text p w)) = stdout w"
  by (simp add: create_vector_store_def Let_def split: sum.splits)

text \<open>
  Claim C2. When nothing exists at the store path, \<^verbatim>\<open>load_or_create_vector_store\<close> is
  the rebuild of lines 48 to 57. When something exists there and \<^verbatim>\<open>FAISS.load_local\<close>
  raises, the exception is not passed on: the method prints
  \<^verbatim>\<open>Error loading vector store: \<close> and the exception's text, and then returns what that
  same rebuild returns and leaves the filesystem as that same rebuild leaves it.
\<close>

theorem load_failure_falls_through_to_rebuild:
  "(\<not> path_exists c (files w) (os_path_join (vector_store_path self) name) \<longrightarrow>
      load_or_create_vector_store c self text name w
        = create_vector_store c self text (os_path_join (vector_store_path self) name) w) \<and>
   (path_exists c (files w) (os_path_join (vector_store_path self) name) \<longrightarrow>
    load_local c (files w) (os_path_join (vector_store_path self) name) = Inl e \<longrightarrow>
      fst (load_or_create_vector_store c self text name w)
        = fst (create_vector_store c self text (os_path_join (vector_store_path self) name) w) \<and>
      files (snd (load_or_create_vector_store c self text name w))
        = files (snd (create_vector_store c self text
                        (os_path_join (vector_store_path self) name) w)) \<and>
      stdout (snd (load_or_create_vector_store c self text name w))
        = stdout w @ [''Error loading vector store: '' @ str e])"
  by (simp add: load_or_create_vector_store_def create_vector_store_print
        create_vector_store_stdout files_print stdout_print Let_def)

text \<open>Corrupt data at \<^verbatim>\<open>vector_indices/resume\<close>: the index is rebuilt from the text and
  stored, and the failure is only printed. Nothing at that path: the same index is
  built and nothing is printed.\<close>

theorem load_failure_falls_through_to_rebuild_witness:
  "fst (load_or_create_vector_store (spec_collaborators (\<lambda>q t. 0) (\<lambda>r. Inr (Completion [])))
          (init ''key'' None) ''Python and SQL'' ''resume''
          \<lparr>files = [''vector_indices/resume'' \<mapsto> Corrupt], stdout = []\<rparr>)
     = Inr [Document ''Python and SQL''] \<and>
   files (snd (load_or_create_vector_store
                 (spec_collaborators (\<lambda>q t. 0) (\<lambda>r. Inr (Completion [])))
                 (init ''key'' None) ''Python and SQL'' ''resume''
                 \<lparr>files = [''vector_indices/resume'' \<mapsto> Corrupt], stdout = []\<rparr>))
     ''vector_indices/resume'' = Some (Stored [Document ''Python and SQL'']) \<and>
   stdout (snd (load_or_create_vector_store
                  (spec_collaborators (\<lambda>q t. 0) (\<lambda>r. Inr (Completion [])))
                  (init ''key'' None) ''Python and SQL'' ''resume''
                  \<lparr>files = [''vector_indices/resume'' \<mapsto> Corrupt], stdout = []\<rparr>))
     = [''Error loading vector store: deserialization error''] \<and>
   load_or_create_vector_store (spec_collaborators (\<lambda>q t. 0) (\<lambda>r. Inr (Completion [])))
     (init ''key'' None) ''Python and SQL'' ''resume'' \<lparr>files = Map.empty, stdout = []\<rparr>
     = (Inr [Document ''Python and SQL''],
        \<lparr>files = [''vector_indices'' \<mapsto> Folder,
                   ''vector_indices/resume'' \<mapsto> Stored [Document ''Python and SQL'']],
         stdout = []\<rparr>)"
proof -
  let ?c = "spec_collaborators (\<lambda>q t. 0) (\<lambda>r. Inr (Completion []))"
  let ?self = "init ''key'' None"
  let ?w = "\<lparr>files = [''vector_indices/resume'' \<mapsto> Corrupt], stdout = []\<rparr>"
  let ?new = "\<lparr>files = Map.empty :: disk, stdout = []\<rparr>"
  have p: "os_path_join (vector_store_path ?self) ''resume'' = ''vector_indices/resume''"
    by (rule path_example)
  have ex: "path_exists ?c (files ?w) (os_path_join (vector_store_path ?self) ''resume'')"
    unfolding p by (simp add: spec_collaborators_def)
  have ld: "load_local ?c (files ?w) (os_path_join (vector_store_path ?self) ''resume'')
              = Inl (Exception ''deserialization error'')"
    unfolding p by (simp add: spec_collaborators_def)
  have cr: "create_vector_store ?c ?self ''Python and SQL'' ''vector_indices/resume'' ?w
      = (Inr [Document ''Python and SQL''],
         \<lparr>files = [''vector_indices/resume'' \<mapsto> Corrupt, ''vector_indices'' \<mapsto> Folder,
                    ''vector_indices/resume'' \<mapsto> Stored [Document ''Python and SQL'']],
          stdout = []\<rparr>)"
    by (simp add: create_vector_store_def spec_collaborators_def chunker_example Let_def)
       (simp add: init_def)
  have corrupt: "fst (load_or_create_vector_store ?c ?self ''Python and SQL'' ''resume'' ?w)
       = Inr [Document ''Python and SQL''] \<and>
     files (snd (load_or_create_vector_store ?c ?self ''Python and SQL'' ''resume'' ?w))
       ''vector_indices/resume'' = Some (Stored [Document ''Python and SQL'']) \<and>
     stdout (snd (load_or_create_vector_store ?c ?self ''Python and SQL'' ''resume'' ?w))
       = [''Error loading vector store: deserialization error'']"
    using load_failure_falls_through_to_rebuild
         [of ?c ?w ?self "''resume''" "''Python and SQL''" "Exception ''deserialization error''",
          THEN conjunct2, rule_format, OF ex ld]
    unfolding p cr by simp
  have nx: "\<not> path_exists ?c (files ?new) (os_path_join (vector_store_path ?self) ''resume'')"
    by (simp add: spec_collaborators_def)
  have cn: "create_vector_store ?c ?self ''Python and SQL'' ''vector_indices/resume'' ?new
      = (Inr [Document ''Python and SQL''],
         \<lparr>files = [''vector_indices'' \<mapsto> Folder,
                    ''vector_indices/resume'' \<mapsto> Stored [Document ''Python and SQL'']],
          stdout = []\<rparr>)"
    by (simp add: create_vector_store_def spec_collaborators_def chunker_example Let_def)
       (simp add: init_def)
  have absent: "load_or_create_vector_store ?c ?self ''Python and SQL'' ''resume'' ?new
      = (Inr [Document ''Python and SQL''],
         \<lparr>files = [''vector_indices'' \<mapsto> Folder,
                    ''vector_indices/resume'' \<mapsto> Stored [Document ''Python and SQL'']],
          stdout = []\<rparr>)"
    using load_failure_falls_through_to_rebuild
         [of ?c ?new ?self "''resume''" "''Python and SQL''",
          THEN conjunct1, rule_format, OF nx]
    unfolding p cn .
  from corrupt absent show ?thesis by (simp only: simp_thms)
qed

subsection \<open>\<^verbatim>\<open>load_or_create_vector_store\<close>: load or build\<close>

text \<open>
  Claim C7. With \<open>p\<close> the path \<^verbatim>\<open>os.path.join(self.vector_store_path, store_name)\<close>:
  when something exists at \<open>p\<close> and loads, the method returns the loaded index and
  changes nothing. Otherwise (nothing at \<open>p\<close>, or loading raised) it splits the text,
  wraps the chunks in documents, builds the index from them, calls
  \<^verbatim>\<open>os.makedirs(self.vector_store_path, exist_ok=True)\<close>, saves the index at \<open>p\<close> and
  returns it; the filesystem is then the one \<^verbatim>\<open>save_local\<close> left. On the storage of the
  specification this means: the storage directory exists afterwards (created when it was
  absent, otherwise left as it was), the index is stored at \<open>p\<close>, and loading from \<open>p\<close>
  gives it back.
\<close>

theorem load_or_create_vector_store_result:
  "(path_exists c (files w) (os_path_join (vector_store_path self) name) \<longrightarrow>
    load_local c (files w) (os_path_join (vector_store_path self) name) = Inr vs \<longrightarrow>
      load_or_create_vector_store c self text name w = (Inr vs, w)) \<and>
   (\<not> path_exists c (files w) (os_path_join (vector_store_path self) name) \<or>
    (\<exists>e. load_local c (files w) (os_path_join (vector_store_path self) name) = Inl e) \<longrightarrow>
    from_documents c (map Document (split_text c (text_splitter self) text)) = Inr vs \<longrightarrow>
    makedirs c (files w) (vector_store_path self) = Inr made \<longrightarrow>
    save_local c made vs (os_path_join (vector_store_path self) name) = Inr saved \<longrightarrow>
      fst (load_or_create_vector_store c self text name w) = Inr vs \<and>
      files (snd (load_or_create_vector_store c self text name w)) = saved) \<and>
   ((\<forall>idx. files d (os_path_join (vector_store_path self) name) \<noteq> Some (Stored idx)) \<longrightarrow>
      (case load_or_create_vector_store (spec_collaborators distance generate) self text name d of
         (r, d') \<Rightarrow>
           r = Inr (map Document (chunker (text_splitter self) text)) \<and>
           files d' (vector_store_path self) \<noteq> None \<and>
           (files d (vector_store_path self) = None \<and>
            vector_store_path self \<noteq> os_path_join (vector_store_path self) name \<longrightarrow>
              files d' (vector_store_path self) = Some Folder) \<and>
           files d' (os_path_join (vector_store_path self) name)
             = Some (Stored (map Document (chunker (text_splitter self) text))) \<and>
           (\<forall>q. q \<noteq> vector_store_path self \<and> q \<noteq> os_path_join (vector_store_path self) name \<longrightarrow>
              files d' q = files d q) \<and>
           load_local (spec_collaborators distance generate) (files d')
             (os_path_join (vector_store_path self) name) = r))"
proof (intro conjI impI)
  assume "path_exists c (files w) (os_path_join (vector_store_path self) name)"
    and "load_local c (files w) (os_path_join (vector_store_path self) name) = Inr vs"
  then show "load_or_create_vector_store c self text name w = (Inr vs, w)"
    by (simp add: load_or_create_vector_store_def)
next
  assume a: "\<not> path_exists c (files w) (os_path_join (vector_store_path self) name) \<or>
    (\<exists>e. load_local c (files w) (os_path_join (vector_store_path self) name) = Inl e)"
    and b: "from_documents c (map Document (split_text c (text_splitter self) text)) = Inr vs"
      "makedirs c (files w) (vector_store_path self) = Inr made"
      "save_local c made vs (os_path_join (vector_store_path self) name) = Inr saved"
  have cr: "create_vector_store c self text (os_path_join (vector_store_path self) name) w'
      = (Inr vs, w'\<lparr>files := saved\<rparr>)" if "files w' = files w" for w'
    using b that by (simp add: create_vector_store_def Let_def)
  from a show "fst (load_or_create_vector_store c self text name w) = Inr vs"
    by (auto simp: load_or_create_vector_store_def cr files_print Let_def)
  from a show "files (snd (load_or_create_vector_store c self text name w)) = saved"
    by (auto simp: load_or_create_vector_store_def cr files_print Let_def)
next
  assume "\<forall>idx. files d (os_path_join (vector_store_path self) name) \<noteq> Some (Stored idx)"
  then show "case load_or_create_vector_store (spec_collaborators distance generate) self text name d of
         (r, d') \<Rightarrow>
           r = Inr (map Document (chunker (text_splitter self) text)) \<and>
           files d' (vector_store_path self) \<noteq> None \<and>
           (files d (vector_store_path self) = None \<and>
            vector_store_path self \<noteq> os_path_join (vector_store_path self) name \<longrightarrow>
              files d' (vector_store_path self) = Some Folder) \<and>
           files d' (os_path_join (vector_store_path self) name)
             = Some (Stored (map Document (chunker (text_splitter self) text))) \<and>
           (\<forall>q. q \<noteq> vector_store_path self \<and> q \<noteq> os_path_join (vector_store_path self) name \<longrightarrow>
              files d' q = files d q) \<and>
           load_local (spec_collaborators distance generate) (files d')
             (os_path_join (vector_store_path self) name) = r"
    by (auto simp: load_or_create_vector_store_def create_vector_store_def
          spec_collaborators_def print_def Let_def split: option.splits node.splits)
qed


text \<open>A stored index is returned as it is, whatever the text; on an empty storage the
  index is built from the text, the directory is created and the index is stored.\<close>

theorem load_or_create_vector_store_result_witness:
  "load_or_create_vector_store (spec_collaborators (\<lambda>q t. 0) (\<lambda>r. Inr (Completion [])))
     (init ''key'' None) ''Python and SQL'' ''resume''
     \<lparr>files = [''vector_indices/resume'' \<mapsto> Stored [Document ''Go'']], stdout = []\<rparr>
   = (Inr [Document ''Go''],
      \<lparr>files = [''vector_indices/resume'' \<mapsto> Stored [Document ''Go'']], stdout = []\<rparr>) \<and>
   fst (load_or_create_vector_store (spec_collaborators (\<lambda>q t. 0) (\<lambda>r. Inr (Completion [])))
          (init ''key'' None) ''Python and SQL'' ''resume'' \<lparr>files = Map.empty, stdout = []\<rparr>)
     = Inr [Document ''Python and SQL''] \<and>
   files (snd (load_or_create_vector_store
                 (spec_collaborators (\<lambda>q t. 0) (\<lambda>r. Inr (Completion [])))
                 (init ''key'' None) ''Python and SQL'' ''resume''
                 \<lparr>files = Map.empty, stdout = []\<rparr>))
     = [''vector_indices'' \<mapsto> Folder,
        ''vector_indices/resume'' \<mapsto> Stored [Document ''Python and SQL'']] \<and>
   load_local (spec_collaborators (\<lambda>q t. 0) (\<lambda>r. Inr (Completion [])))
     (files (snd (load_or_create_vector_store
                 (spec_collaborators (\<lambda>q t. 0) (\<lambda>r. Inr (Completion [])))
                 (init ''key'' None) ''Python and SQL'' ''resume''
                 \<lparr>files = Map.empty, stdout = []\<rparr>)))
     ''vector_indices/resume''
     = Inr [Document ''Python and SQL'']"
proof -
  let ?c = "spec_collaborators (\<lambda>q t. 0) (\<lambda>r. Inr (Completion []))"
  let ?self = "init ''key'' None"
  let ?old = "\<lparr>files = [''vector_indices/resume'' \<mapsto> Stored [Document ''Go'']], stdout = []\<rparr>"
  let ?new = "\<lparr>files = Map.empty :: disk, stdout = []\<rparr>"
  let ?vs = "[Document ''Python and SQL'']"
  let ?fs1 = "[''vector_indices'' \<mapsto> Folder]"
  let ?fs2 = "[''vector_indices'' \<mapsto> Folder, ''vector_indices/resume'' \<mapsto> Stored ?vs]"
  have p: "os_path_join (vector_store_path ?self) ''resume'' = ''vector_indices/resume''"
    by (rule path_example)
  have root: "vector_store_path ?self = ''vector_indices''" by (simp add: init_def)
  have 1: "load_or_create_vector_store ?c ?self ''Python and SQL'' ''resume'' ?old
             = (Inr [Document ''Go''], ?old)"
    by (rule load_or_create_vector_store_result
          [where c = ?c and w = ?old and self = ?self and name = "''resume''"
             and vs = "[Document ''Go'']", THEN conjunct1, rule_format])
       (simp_all add: p spec_collaborators_def)
  have 2: "fst (load_or_create_vector_store ?c ?self ''Python and SQL'' ''resume'' ?new) = Inr ?vs \<and>
           files (snd (load_or_create_vector_store ?c ?self ''Python and SQL'' ''resume'' ?new)) = ?fs2"
    by (rule load_or_create_vector_store_result
          [where c = ?c and w = ?new and self = ?self and name = "''resume''"
             and vs = ?vs and made = ?fs1 and saved = ?fs2,
           THEN conjunct2, THEN conjunct1, rule_format])
       (simp_all add: p root spec_collaborators_def chunker_example os_path_join_def)
  have none: "files ?new (os_path_join (vector_store_path ?self) ''resume'')
      \<noteq> Some (Stored idx)" for idx by simp
  from load_or_create_vector_store_result
         [of _ _ ?self "''resume''" _ "''Python and SQL''" _ _ ?new
            "\<lambda>q t. 0" "\<lambda>r. Inr (Completion [])",
          THEN conjunct2, THEN conjunct2, rule_format, OF none] 2
  have 3: "load_local ?c
      (files (snd (load_or_create_vector_store ?c ?self ''Python and SQL'' ''resume'' ?new)))
      ''vector_indices/resume'' = Inr ?vs"
    by (simp add: p split: prod.splits)
  from 1 2 3 show ?thesis by blast
qed

subsection \<open>Match scores\<close>






lemma calculate_match_scores_unfold:
  "similarity_search c js ''What are the specific requirements and qualifications?'' 5
     = Inr documents \<Longrightarrow>
   calculate_match_scores c self rs js w =
     score_loop c rs
       (split_text c (text_splitter self) (join ''\<newline>'' (map page_content documents)))
       Map.empty w"
  by (simp add: calculate_match_scores_def get_relevant_context_def)




subsection \<open>The range of the scores\<close>



subsection \<open>The index of the specification\<close>

lemma search_length: "length (search distance idx query k) = min k (length idx)"
  by (simp add: search_def min.commute)


lemma search_sorted: "sorted (map snd (search distance idx query k))"
proof -
  have "sorted (map snd (sort_key snd (map (\<lambda>d. (d, distance query (page_content d))) idx)))"
    by (rule sorted_sort_key)
  then have "sorted (take k (map snd (sort_key snd (map (\<lambda>d. (d, distance query (page_content d))) idx))))"
    by (rule sorted_wrt_take)
  then show ?thesis by (simp only: search_def take_map)
qed

lemma search_scored:
  "(doc, d) \<in> set (search distance idx query k) \<Longrightarrow>
     doc \<in> set idx \<and> d = distance query (page_content doc)"
proof -
  assume "(doc, d) \<in> set (search distance idx query k)"
  then have "(doc, d) \<in> set (sort_key snd (map (\<lambda>d. (d, distance query (page_content d))) idx))"
    unfolding search_def by (rule in_set_takeD)
  then have "(doc, d) \<in> set (map (\<lambda>d. (d, distance query (page_content d))) idx)"
    by (simp only: set_sort)
  then show ?thesis by auto
qed


lemma mset_fst_sort_scored:
  "mset (map fst (sort_key snd (map (\<lambda>d. (d, f d)) idx))) = mset idx"
proof -
  have "map fst (map (\<lambda>d. (d, f d)) idx) = idx" by (induction idx) simp_all
  then have "mset (map fst (map (\<lambda>d. (d, f d)) idx)) = mset idx" by simp
  moreover have "mset (map fst (sort_key snd (map (\<lambda>d. (d, f d)) idx)))
     = mset (map fst (map (\<lambda>d. (d, f d)) idx))"
    by (simp only: mset_map mset_sort)
  ultimately show ?thesis by (simp only:)
qed

lemma sorted_take_drop:
  "sorted (map f xs) \<Longrightarrow> a \<in> set (take k xs) \<Longrightarrow> b \<in> set (drop k xs) \<Longrightarrow> f a \<le> f b"
proof -
  assume s: "sorted (map f xs)" and a: "a \<in> set (take k xs)" and b: "b \<in> set (drop k xs)"
  have "map f xs = map f (take k xs) @ map f (drop k xs)"
    by (simp only: map_append [symmetric] append_take_drop_id)
  with s have "sorted (map f (take k xs) @ map f (drop k xs))" by (simp only:)
  then have "\<forall>x\<in>set (map f (take k xs)). \<forall>y\<in>set (map f (drop k xs)). x \<le> y"
    by (simp only: sorted_append) blast
  moreover from a have "f a \<in> set (map f (take k xs))" by (simp only: set_map) (rule imageI)
  moreover from b have "f b \<in> set (map f (drop k xs))" by (simp only: set_map) (rule imageI)
  ultimately show ?thesis by blast
qed


lemma search_nearest:
  "\<exists>rest. mset (map fst (search distance idx query k)) + mset rest = mset idx \<and>
     (\<forall>found\<in>set (search distance idx query k). \<forall>other\<in>set rest.
        snd found \<le> distance query (page_content other))"
proof -
  let ?scored = "sort_key snd (map (\<lambda>d. (d, distance query (page_content d))) idx)"
  have s: "sorted (map snd ?scored)" by (rule sorted_sort_key)
  have "mset (map fst (take k ?scored)) + mset (map fst (drop k ?scored))
          = mset (map fst (take k ?scored) @ map fst (drop k ?scored))"
    by (simp only: mset_append)
  also have "\<dots> = mset (map fst ?scored)"
    by (simp only: map_append [symmetric] append_take_drop_id)
  also have "\<dots> = mset idx" by (rule mset_fst_sort_scored)
  finally have m: "mset (map fst (search distance idx query k)) + mset (map fst (drop k ?scored))
      = mset idx" by (simp only: search_def)
  have sc: "snd p = distance query (page_content (fst p))" if "p \<in> set ?scored" for p
  proof -
    from that have "p \<in> set (map (\<lambda>d. (d, distance query (page_content d))) idx)"
      by (simp only: set_sort)
    then show ?thesis by auto
  qed
  have n: "snd found \<le> distance query (page_content other)"
    if f: "found \<in> set (search distance idx query k)"
      and o: "other \<in> set (map fst (drop k ?scored))" for found other
  proof -
    from o obtain p where p: "p \<in> set (drop k ?scored)" "other = fst p" by auto
    from f have "found \<in> set (take k ?scored)" by (simp only: search_def)
    from sorted_take_drop [OF s this p(1)] have "snd found \<le> snd p" .
    moreover from p(1) have "p \<in> set ?scored" by (rule in_set_dropD)
    ultimately show ?thesis using sc [of p] p(2) by simp
  qed
  from m n show ?thesis by blast
qed

subsection \<open>Retrieval\<close>

text \<open>
  Claim C4. \<^verbatim>\<open>get_relevant_context\<close> joins the texts of the documents that
  \<^verbatim>\<open>similarity_search\<close> returns with newlines, in the order returned; an omitted \<open>k\<close>
  is 3; no documents give the empty string. On the index of the specification the
  documents returned are the \<open>k\<close> nearest chunks, nearest first: there are
  \<open>min k n\<close> of them for an index of \<open>n\<close> chunks, their distances ascend, each is a chunk
  of the index with its distance to the query, and the chunks left out are at least as
  far as every chunk returned. An index without chunks gives the empty string.
\<close>

theorem get_relevant_context_nearest:
  "get_relevant_context c vs query None w = get_relevant_context c vs query (Some 3) w \<and>
   (\<forall>documents. similarity_search c vs query k = Inr documents \<longrightarrow>
      get_relevant_context c vs query (Some k) w
        = (Inr (join ''\<newline>'' (map page_content documents)), w)) \<and>
   (similarity_search c vs query k = Inr [] \<longrightarrow>
      get_relevant_context c vs query (Some k) w = (Inr [], w)) \<and>
   get_relevant_context (spec_collaborators distance generate) idx query (Some k) d
     = (Inr (join ''\<newline>'' (map page_content (map fst (search distance idx query k)))), d) \<and>
   length (search distance idx query k) = min k (length idx) \<and>
   sorted (map snd (search distance idx query k)) \<and>
   (\<forall>found\<in>set (search distance idx query k).
      fst found \<in> set idx \<and> snd found = distance query (page_content (fst found))) \<and>
   (\<exists>rest. mset (map fst (search distance idx query k)) + mset rest = mset idx \<and>
      (\<forall>found\<in>set (search distance idx query k). \<forall>other\<in>set rest.
         snd found \<le> distance query (page_content other))) \<and>
   get_relevant_context (spec_collaborators distance generate) [] query k_arg d = (Inr [], d)"
proof (intro conjI)
  show "get_relevant_context c vs query None w = get_relevant_context c vs query (Some 3) w"
    by (rule get_relevant_context_default)
  show "\<forall>documents. similarity_search c vs query k = Inr documents \<longrightarrow>
      get_relevant_context c vs query (Some k) w
        = (Inr (join ''\<newline>'' (map page_content documents)), w)"
    by (simp add: get_relevant_context_def)
  show "similarity_search c vs query k = Inr [] \<longrightarrow>
      get_relevant_context c vs query (Some k) w = (Inr [], w)"
    by (simp add: get_relevant_context_def)
  show "get_relevant_context (spec_collaborators distance generate) idx query (Some k) d
     = (Inr (join ''\<newline>'' (map page_content (map fst (search distance idx query k)))), d)"
    by (simp add: get_relevant_context_def)
  show "length (search distance idx query k) = min k (length idx)"
    by (rule search_length)
  show "sorted (map snd (search distance idx query k))"
    by (rule search_sorted)
  show "\<forall>found\<in>set (search distance idx query k).
      fst found \<in> set idx \<and> snd found = distance query (page_content (fst found))"
  proof
    fix found assume "found \<in> set (search distance idx query k)"
    then have "(fst found, snd found) \<in> set (search distance idx query k)" by simp
    then show "fst found \<in> set idx \<and> snd found = distance query (page_content (fst found))"
      by (rule search_scored)
  qed
  show "\<exists>rest. mset (map fst (search distance idx query k)) + mset rest = mset idx \<and>
      (\<forall>found\<in>set (search distance idx query k). \<forall>other\<in>set rest.
         snd found \<le> distance query (page_content other))"
    by (rule search_nearest)
  show "get_relevant_context (spec_collaborators distance generate) [] query k_arg d = (Inr [], d)"
    by (simp add: get_relevant_context_def search_def)
qed


text \<open>Four chunks whose distance to the query is their length: the default \<open>k\<close> returns
  the three shortest, the shortest first.\<close>

theorem get_relevant_context_nearest_witness:
  "get_relevant_context
     (spec_collaborators (\<lambda>q t. real (length t)) (\<lambda>r. Inr (Completion [])))
     [Document ''Go and Rust'', Document ''SQL'', Document ''Python'', Document ''code review'']
     ''languages'' None \<lparr>files = Map.empty, stdout = []\<rparr>
   = (Inr ''SQL\<newline>Python\<newline>Go and Rust'', \<lparr>files = Map.empty, stdout = []\<rparr>)"
proof -
  let ?c = "spec_collaborators (\<lambda>q t. real (length t)) (\<lambda>r. Inr (Completion []))"
  let ?idx = "[Document ''Go and Rust'', Document ''SQL'', Document ''Python'',
               Document ''code review'']"
  let ?w = "\<lparr>files = Map.empty :: disk, stdout = []\<rparr>"
  note T = get_relevant_context_nearest [where c = ?c and vs = ?idx and query = "''languages''"
             and w = ?w and k = 3]
  have ss: "similarity_search ?c ?idx ''languages'' 3
      = Inr [Document ''SQL'', Document ''Python'', Document ''Go and Rust'']"
    by (simp add: search_def)
  have "get_relevant_context ?c ?idx ''languages'' None ?w
      = get_relevant_context ?c ?idx ''languages'' (Some 3) ?w"
    by (rule T [THEN conjunct1])
  also have "\<dots> = (Inr (join ''\<newline>'' (map page_content
      [Document ''SQL'', Document ''Python'', Document ''Go and Rust''])), ?w)"
    by (rule T [THEN conjunct2, THEN conjunct1, rule_format, OF ss])
  finally show ?thesis by simp
qed

subsection \<open>The size of the chunks\<close>

lemma length_strip: "length (strip s) \<le> length s"
proof -
  have "length (strip s) \<le> length (dropWhile isspace s)"
    unfolding strip_def by (simp add: length_dropWhile_le order_trans [OF length_dropWhile_le])
  also have "\<dots> \<le> length s" by (rule length_dropWhile_le)
  finally show ?thesis .
qed

lemma emit_bound:
  "length (concat cur) \<le> n \<Longrightarrow> chunk \<in> set (emit cur) \<Longrightarrow> length chunk \<le> n"
  using length_strip [of "concat cur"] by (auto simp: emit_def Let_def split: if_splits)

lemma keep_overlap_fits:
  "n \<le> max_size \<Longrightarrow> length (concat (keep_overlap max_size overlap n cur)) + n \<le> max_size"
proof (induction cur)
  case Nil
  then show ?case by simp
next
  case (Cons p ps)
  define total where "total = length (concat (p # ps))"
  have ks: "keep_overlap max_size overlap n (p # ps) =
      (if overlap < total \<or> (max_size < total + n \<and> 0 < total)
       then keep_overlap max_size overlap n ps else p # ps)"
    unfolding total_def by (simp only: keep_overlap.simps Let_def)
  show ?case
  proof (cases "overlap < total \<or> (max_size < total + n \<and> 0 < total)")
    case True
    with ks have "keep_overlap max_size overlap n (p # ps) = keep_overlap max_size overlap n ps"
      by (simp only: if_True)
    with Cons show ?thesis by (simp only:)
  next
    case False
    with ks have k: "keep_overlap max_size overlap n (p # ps) = p # ps"
      by (simp only: if_False)
    from False have "total + n \<le> max_size \<or> total = 0" by auto
    with Cons.prems have "total + n \<le> max_size" by auto
    with k show ?thesis unfolding total_def by (simp only:)
  qed
qed

lemma merge_splits_bound:
  "\<forall>d\<in>set ds. length d \<le> max_size \<Longrightarrow> length (concat cur) \<le> max_size \<Longrightarrow>
   chunk \<in> set (merge_splits max_size overlap cur ds) \<Longrightarrow> length chunk \<le> max_size"
proof (induction ds arbitrary: cur)
  case Nil
  then show ?case by (auto dest: emit_bound)
next
  case (Cons d ds)
  from Cons.prems(1) have d: "length d \<le> max_size" and ds: "\<forall>d\<in>set ds. length d \<le> max_size"
    by simp_all
  show ?case
  proof (cases "max_size < length (concat cur) + length d \<and> cur \<noteq> []")
    case True
    with Cons.prems(3) consider "chunk \<in> set (emit cur)"
      | "chunk \<in> set (merge_splits max_size overlap
                         (keep_overlap max_size overlap (length d) cur @ [d]) ds)"
      by auto
    then show ?thesis
    proof cases
      case 1
      from emit_bound [OF Cons.prems(2) 1] show ?thesis .
    next
      case 2
      have "length (concat (keep_overlap max_size overlap (length d) cur @ [d])) \<le> max_size"
        using keep_overlap_fits [OF d, of overlap cur] by simp
      from Cons.IH [OF ds this 2] show ?thesis .
    qed
  next
    case False
    with Cons.prems(3) have m: "chunk \<in> set (merge_splits max_size overlap (cur @ [d]) ds)"
      by auto
    from False d have "length (concat (cur @ [d])) \<le> max_size" by auto
    from Cons.IH [OF ds this m] show ?thesis .
  qed
qed

lemma flush_bound:
  "\<forall>g\<in>set good. length g \<le> max_size \<Longrightarrow>
   chunk \<in> set (if good = [] then [] else merge_splits max_size overlap [] good) \<Longrightarrow>
   length chunk \<le> max_size"
  by (cases "good = []") (auto dest: merge_splits_bound [rotated 2])

lemma collect_bound:
  "\<forall>s\<in>set splits. \<forall>ch\<in>set (deeper s). length ch \<le> max_size \<Longrightarrow>
   \<forall>g\<in>set good. length g \<le> max_size \<Longrightarrow>
   chunk \<in> set (collect max_size overlap deeper good splits) \<Longrightarrow> length chunk \<le> max_size"
proof (induction splits arbitrary: good)
  case Nil
  then show ?case using flush_bound [of good max_size chunk overlap] by simp
next
  case (Cons s splits)
  from Cons.prems(1) have rest: "\<forall>s\<in>set splits. \<forall>ch\<in>set (deeper s). length ch \<le> max_size"
    and here: "\<forall>ch\<in>set (deeper s). length ch \<le> max_size" by simp_all
  show ?case
  proof (cases "length s < max_size")
    case True
    with Cons.prems(3) have c: "chunk \<in> set (collect max_size overlap deeper (good @ [s]) splits)"
      by simp
    from True Cons.prems(2) have "\<forall>g\<in>set (good @ [s]). length g \<le> max_size" by auto
    from Cons.IH [OF rest this c] show ?thesis .
  next
    case False
    with Cons.prems(3) consider
      "chunk \<in> set (if good = [] then [] else merge_splits max_size overlap [] good)"
      | "chunk \<in> set (deeper s)"
      | "chunk \<in> set (collect max_size overlap deeper [] splits)"
      by auto
    then show ?thesis
    proof cases
      case 1
      from flush_bound [OF Cons.prems(2) this] show ?thesis .
    next
      case 2
      with here show ?thesis by blast
    next
      case 3
      have "\<forall>g\<in>set []. length (g :: string) \<le> max_size" by simp
      from Cons.IH [OF rest this 3] show ?thesis .
    qed
  qed
qed

lemma split_with_bound:
  "[] \<in> set seps \<Longrightarrow> 1 \<le> max_size \<Longrightarrow>
   chunk \<in> set (split_with max_size overlap seps body) \<Longrightarrow> length chunk \<le> max_size"
proof (induction seps arbitrary: body chunk)
  case Nil
  then show ?case by simp
next
  case (Cons sep seps)
  show ?case
  proof (cases "sep = [] \<or> seps = []")
    case True
    with Cons.prems(1) have sep: "sep = []" by auto
    have "\<forall>s\<in>set (split_on sep body). \<forall>ch\<in>set [s]. length ch \<le> max_size"
      using Cons.prems(2) by (auto simp: sep split_on_def)
    moreover have "\<forall>g\<in>set []. length (g :: string) \<le> max_size" by simp
    moreover from True Cons.prems(3)
    have "chunk \<in> set (collect max_size overlap (\<lambda>piece. [piece]) [] (split_on sep body))"
      by auto
    ultimately show ?thesis by (rule collect_bound)
  next
    case False
    with Cons.prems(1) have in_seps: "[] \<in> set seps" by auto
    show ?thesis
    proof (cases "occurs sep body")
      case True
      have "\<forall>s\<in>set (split_on sep body).
              \<forall>ch\<in>set (split_with max_size overlap seps s). length ch \<le> max_size"
        using Cons.IH [OF in_seps Cons.prems(2)] by blast
      moreover have "\<forall>g\<in>set []. length (g :: string) \<le> max_size" by simp
      moreover from False True Cons.prems(3)
      have "chunk \<in> set (collect max_size overlap (split_with max_size overlap seps) []
                           (split_on sep body))" by simp
      ultimately show ?thesis by (rule collect_bound)
    next
      case no: False
      with False Cons.prems(3) have "chunk \<in> set (split_with max_size overlap seps body)"
        by simp
      from Cons.IH [OF in_seps Cons.prems(2) this] show ?thesis .
    qed
  qed
qed

lemma chunker_bound:
  "[] \<in> set (separators splitter) \<Longrightarrow> 1 \<le> chunk_size splitter \<Longrightarrow>
   chunk \<in> set (chunker splitter body) \<Longrightarrow> length chunk \<le> chunk_size splitter"
  unfolding chunker_def by (rule split_with_bound)

lemma chunker_init_bound:
  "chunk \<in> set (chunker (text_splitter (init key path)) body) \<Longrightarrow> length chunk \<le> 500"
  using chunker_bound [of "text_splitter (init key path)" chunk body]
  by (simp add: init_def)

lemma spec_split_text [simp]:
  "split_text (spec_collaborators distance generate) = chunker"
  by (simp add: spec_collaborators_def)

text \<open>
  Claim C9. Every chunk the Chunker produces is at most \<open>chunk_size\<close> characters long,
  whenever the empty separator is among the separators and \<open>chunk_size\<close> is at least 1;
  so with the configuration of \<^verbatim>\<open>__init__\<close> (\<open>chunk_size = 500\<close>, the empty separator
  last) no chunk is longer than 500. The bound holds where the module splits: the
  documents of an index that \<^verbatim>\<open>load_or_create_vector_store\<close> builds are at most 500
  long, and so is every requirement that \<^verbatim>\<open>calculate_match_scores\<close> scores, after
  trimming.
\<close>

theorem chunk_size_bound:
  "([] \<in> set (separators splitter) \<longrightarrow> 1 \<le> chunk_size splitter \<longrightarrow>
      (\<forall>chunk\<in>set (chunker splitter body). length chunk \<le> chunk_size splitter)) \<and>
   (\<forall>chunk\<in>set (chunker (text_splitter (init key path)) body). length chunk \<le> 500) \<and>
   (files d (os_path_join (vector_store_path (init key path)) name) = None \<longrightarrow>
      (\<exists>idx. fst (load_or_create_vector_store (spec_collaborators distance generate)
                    (init key path) body name d) = Inr idx \<and>
         (\<forall>doc\<in>set idx. length (page_content doc) \<le> 500))) \<and>
   (split_text c = chunker \<longrightarrow>
      (\<forall>scores w'. calculate_match_scores c (init key path) rs js w = (Inr scores, w') \<longrightarrow>
         (\<forall>t\<in>dom scores. length t \<le> 500)))"
proof (intro conjI impI allI ballI)
  fix chunk
  assume "[] \<in> set (separators splitter)" "1 \<le> chunk_size splitter"
    "chunk \<in> set (chunker splitter body)"
  then show "length chunk \<le> chunk_size splitter" by (rule chunker_bound)
next
  fix chunk
  assume "chunk \<in> set (chunker (text_splitter (init key path)) body)"
  then show "length chunk \<le> 500" by (rule chunker_init_bound)
next
  assume "files d (os_path_join (vector_store_path (init key path)) name) = None"
  then have "fst (load_or_create_vector_store (spec_collaborators distance generate)
                    (init key path) body name d)
      = Inr (map Document (chunker (text_splitter (init key path)) body))"
    by (simp add: load_or_create_vector_store_def create_vector_store_def
          spec_collaborators_def Let_def)
  moreover have "\<forall>doc\<in>set (map Document (chunker (text_splitter (init key path)) body)).
      length (page_content doc) \<le> 500"
    using chunker_init_bound [of _ key path body] by auto
  ultimately show "\<exists>idx. fst (load_or_create_vector_store (spec_collaborators distance generate)
                    (init key path) body name d) = Inr idx \<and>
         (\<forall>doc\<in>set idx. length (page_content doc) \<le> 500)"
    by blast
next
  fix scores w' t
  assume sp: "split_text c = chunker"
    and r: "calculate_match_scores c (init key path) rs js w = (Inr scores, w')"
    and t: "t \<in> dom scores"
  from r obtain documents where
    j: "similarity_search c js ''What are the specific requirements and qualifications?'' 5
          = Inr documents"
    by (cases "similarity_search c js ''What are the specific requirements and qualifications?'' 5")
       (simp_all add: calculate_match_scores_def get_relevant_context_def)
  let ?chunks = "chunker (text_splitter (init key path))
      (join ''\<newline>'' (map page_content documents))"
  from r have "score_loop c rs ?chunks Map.empty w = (Inr scores, w')"
    by (simp add: calculate_match_scores_unfold [OF j] sp)
  from score_loop_dom [OF this] t obtain req where
    q: "req \<in> set ?chunks" "t = strip req" by auto
  from chunker_init_bound [OF q(1)] have "length req \<le> 500" .
  with length_strip [of req] q(2) show "length t \<le> 500" by simp
qed


text \<open>A small splitter, so that every way of splitting (at a line break, at spaces,
  between characters, with overlap) shows on a short text; the index built on an
  empty storage; and the one requirement that a scoring run keeps.\<close>

theorem chunk_size_bound_witness:
  "chunker \<lparr>chunk_size = 10, chunk_overlap = 3,
            separators = [''\<newline>\<newline>'', ''\<newline>'', '' '', []]\<rparr>
     ''Go SQL Python\<newline>testing and code-reviewing''
   = [''Go SQL'', ''Python'', ''testing'', ''and'', ''code-revi'', ''eviewing''] \<and>
   list_all (\<lambda>chunk. length chunk \<le> 10)
     (chunker \<lparr>chunk_size = 10, chunk_overlap = 3,
               separators = [''\<newline>\<newline>'', ''\<newline>'', '' '', []]\<rparr>
        ''Go SQL Python\<newline>testing and code-reviewing'') \<and>
   (\<exists>idx. fst (load_or_create_vector_store
                 (spec_collaborators (\<lambda>q t. 0) (\<lambda>r. Inr (Completion [])))
                 (init ''key'' None) ''Python and SQL'' ''resume''
                 \<lparr>files = Map.empty, stdout = []\<rparr>) = Inr idx \<and>
      list_all (\<lambda>doc. length (page_content doc) \<le> 500) idx) \<and>
   (\<exists>scores. calculate_match_scores
        (spec_collaborators (\<lambda>q t. 1 / 4) (\<lambda>r. Inr (Completion []))) (init ''key'' None)
        [Document ''Python and SQL''] [Document '' Python required'']
        \<lparr>files = Map.empty, stdout = []\<rparr>
      = (Inr scores, \<lparr>files = Map.empty, stdout = []\<rparr>) \<and>
      scores ''Python required'' = Some 75 \<and> length ''Python required'' \<le> 500)"
proof -
  let ?sp = "\<lparr>chunk_size = 10, chunk_overlap = 3,
            separators = [''\<newline>\<newline>'', ''\<newline>'', '' '', []]\<rparr>"
  let ?body = "''Go SQL Python\<newline>testing and code-reviewing''"
  let ?w = "\<lparr>files = Map.empty :: disk, stdout = []\<rparr>"
  have v: "chunker ?sp ?body
      = [''Go SQL'', ''Python'', ''testing'', ''and'', ''code-revi'', ''eviewing'']"
    by (simp add: chunker_def split_on_def emit_def strip_def isspace_def Let_def)
  have h1: "[] \<in> set (separators ?sp)" by simp
  have h2: "1 \<le> chunk_size ?sp" by simp
  from chunk_size_bound [where splitter = ?sp and body = ?body,
         THEN conjunct1, rule_format, OF h1 h2]
  have "\<forall>chunk\<in>set (chunker ?sp ?body). length chunk \<le> 10" by simp
  then have a: "list_all (\<lambda>chunk. length chunk \<le> 10) (chunker ?sp ?body)"
    by (simp only: list_all_iff)
  have h3: "files ?w (os_path_join (vector_store_path (init ''key'' None)) ''resume'') = None"
    by simp
  from chunk_size_bound [where body = "''Python and SQL''" and d = ?w
         and key = "''key''" and path = None and name = "''resume''"
         and distance = "\<lambda>q t. 0" and generate = "\<lambda>r. Inr (Completion [])",
         THEN conjunct2, THEN conjunct2, THEN conjunct1, rule_format, OF h3]
  have b: "\<exists>idx. fst (load_or_create_vector_store
                 (spec_collaborators (\<lambda>q t. 0) (\<lambda>r. Inr (Completion [])))
                 (init ''key'' None) ''Python and SQL'' ''resume'' ?w) = Inr idx \<and>
      list_all (\<lambda>doc. length (page_content doc) \<le> 500) idx"
    by (simp only: list_all_iff)
  let ?c = "spec_collaborators (\<lambda>q t. 1 / 4) (\<lambda>r. Inr (Completion []))"
  let ?rs = "[Document ''Python and SQL'']"
  let ?js = "[Document '' Python required'']"
  have jd: "similarity_search ?c ?js ''What are the specific requirements and qualifications?'' 5
              = Inr ?js"
    by (simp add: search_def)
  have ch: "split_text ?c (text_splitter (init ''key'' None))
      (join ''\<newline>'' (map page_content ?js)) = [''Python required'']"
    by (simp add: chunker_def init_def split_on_def emit_def strip_def isspace_def)
  have st: "strip ''Python required'' = ''Python required''"
    by (simp add: strip_def isspace_def)
  have r: "calculate_match_scores ?c (init ''key'' None) ?rs ?js ?w
      = (Inr [''Python required'' \<mapsto> 75], ?w)"
    unfolding calculate_match_scores_unfold [OF jd] ch
    by (simp add: search_def st Let_def py_round_def round_half_even_def)
  have sp: "split_text ?c = chunker" by simp
  have "length ''Python required'' \<le> 500"
    by (rule chunk_size_bound [where c = ?c and key = "''key''" and path = None,
          THEN conjunct2, THEN conjunct2, THEN conjunct2, rule_format, OF sp r])
       simp
  with r have c: "\<exists>scores. calculate_match_scores ?c (init ''key'' None) ?rs ?js ?w
      = (Inr scores, ?w) \<and>
      scores ''Python required'' = Some 75 \<and> length ''Python required'' \<le> 500"
    by simp
  from v a b c show ?thesis by (simp only: simp_thms)
qed

end
